theory Spec2Isabelle
  imports Main "HOL-Library.Sublist" "HOL-Library.AList"
begin

section \<open>Exceptions\<close>

text \<open>
  Exceptions are values. \<open>py_error\<close> lists the built-in exceptions that the standard
  library, \<open>fsspec\<close>, \<open>httpx\<close> and the interpreter itself raise in the code below
  (\<open>OtherError\<close> stands for any exception class not named here, such as an HTTP status
  error). \<open>exn\<close> adds the two exception classes the package defines
  for itself, \<open>NonMatchingURL\<close> (packagemanager.py) and \<open>NonMatchingURI\<close>
  (downloaders/common.py): library code does not know these classes and cannot raise
  them, so every library operation below returns a \<open>py_error\<close>.
\<close>

datatype py_error =
    ValueError string
  | KeyError string
  | NotImplementedError string
  | SyntaxError
  | UnicodeDecodeError
  | UnicodeEncodeError
  | FileExistsError
  | FileNotFoundError
  | NotADirectoryError
  | IsADirectoryError
  | OtherError string

datatype exn = NonMatchingURL | NonMatchingURI | Py py_error

section \<open>Strings\<close>

text \<open>\<open>s.split(c)\<close> for a one-character separator: never empty, \<open>''''.split(c) = ['''']\<close>.\<close>

fun split_on :: "char \<Rightarrow> string \<Rightarrow> string list" where
  "split_on c [] = [[]]"
| "split_on c (x # xs) =
     (if x = c then [] # split_on c xs
      else (case split_on c xs of [] \<Rightarrow> [[x]] | s # ss \<Rightarrow> (x # s) # ss))"

text \<open>\<open>sep.join(parts)\<close>.\<close>

fun join :: "string \<Rightarrow> string list \<Rightarrow> string" where
  "join sep [] = []"
| "join sep [s] = s"
| "join sep (s # t # ss) = s @ sep @ join sep (t # ss)"

text \<open>\<open>s.startswith(p)\<close>.\<close>

definition startswith :: "string \<Rightarrow> string \<Rightarrow> bool" where
  "startswith s p = (take (length p) s = p)"

text \<open>The decimal digit of a number below ten, for the messages that print a count.\<close>

definition digit :: "nat \<Rightarrow> string" where
  "digit n = [''0123456789'' ! n]"

section \<open>Locator resolution (packagemanager.py)\<close>

text \<open>
  \<open>urllib.parse.urlparse\<close> is a standard-library function; the resolver reads only the
  \<open>netloc\<close> and \<open>path\<close> attributes of its result. The parser is a parameter \<open>up\<close> of
  the model, and it may raise (\<open>urlparse\<close> raises \<open>ValueError\<close> on an unbalanced IPv6
  bracket, for example).
\<close>

record parse_result =
  netloc :: string
  path :: string

type_synonym urlparser = "string \<Rightarrow> py_error + parse_result"

text \<open>\<open>_strip_www\<close>: \<open>if url.startswith("www."): url = url[4:]\<close>.\<close>

definition strip_www :: "string \<Rightarrow> string" where
  "strip_www url = (if startswith url ''www.'' then drop 4 url else url)"

text \<open>
  \<open>_process_url_github\<close>. The unpacking
  \<open>_, user, project, mode, branch, *path = parsed.path.split("/")\<close> raises
  \<open>ValueError\<close> when the split has fewer than five parts.
\<close>

definition process_url_github :: "urlparser \<Rightarrow> string \<Rightarrow> exn + string" where
  "process_url_github up url =
     (case up url of
        Inl e \<Rightarrow> Inl (Py e)
      | Inr parsed \<Rightarrow>
          (let nl = strip_www (netloc parsed) in
           if nl = ''github.com'' then
             (case split_on CHR ''/'' (path parsed) of
                _ # user # project # mode # branch # rest \<Rightarrow>
                  Inr (''https://raw.githubusercontent.com/'' @ user @ ''/'' @ project @ ''/''
                       @ branch @ ''/'' @ join ''/'' rest)
              | short \<Rightarrow>
                  Inl (Py (ValueError (''not enough values to unpack (expected at least 5, got ''
                                       @ digit (length short) @ '')''))))
           else if nl = ''raw.githubusercontent.com'' then
             Inr (''https://raw.githubusercontent.com'' @ path parsed)
           else Inl NonMatchingURL))"

text \<open>
  \<open>_process_url\<close>: the parsers are tried in order; \<open>NonMatchingURL\<close> moves on to the
  next one, any other exception propagates, and when the list is exhausted the url is
  returned unmodified.
\<close>

fun try_parsers :: "(string \<Rightarrow> exn + string) list \<Rightarrow> string \<Rightarrow> exn + string" where
  "try_parsers [] url = Inr url"
| "try_parsers (parser # parsers) url =
     (case parser url of
        Inl NonMatchingURL \<Rightarrow> try_parsers parsers url
      | r \<Rightarrow> r)"

definition process_url :: "urlparser \<Rightarrow> string \<Rightarrow> exn + string" where
  "process_url up url = try_parsers [process_url_github up] url"

subsection \<open>The parser of the examples\<close>

text \<open>
  \<open>urlparse_plain\<close> follows \<open>urllib.parse.urlsplit\<close> and \<open>urlparse\<close> of CPython 3.10.0
  on ASCII strings, step by step:
  \<^item> tab, carriage return and newline are removed;
  \<^item> when the text before the first \<open>:\<close> is not empty and consists of scheme
    characters, it is the scheme (in lower case) and is cut off with the colon;
  \<^item> when the rest starts with \<open>//\<close>, the netloc runs from there to the first of \<open>/\<close>,
    \<open>?\<close>, \<open>#\<close>; a netloc with one of \<open>[\<close>, \<open>]\<close> and not the other raises
    \<open>ValueError\<close>;
  \<^item> the fragment is cut at the first \<open>#\<close>, then the query at the first \<open>?\<close>;
  \<^item> for a scheme that uses parameters, the parameters are cut at the first \<open>;\<close> of the
    last path segment.
  Later releases also strip leading control characters and spaces, require the scheme
  to start with a letter, and check the host between a matching pair of brackets; on
  the examples below all releases agree. The parser is used for the examples only;
  every general statement is about an arbitrary parser.
\<close>

definition scheme_chars :: string where
  "scheme_chars = ''abcdefghijklmnopqrstuvwxyzABCDEFGHIJKLMNOPQRSTUVWXYZ0123456789+-.''"

definition lower_char :: "char \<Rightarrow> char" where
  "lower_char c =
     (case map_of (zip ''ABCDEFGHIJKLMNOPQRSTUVWXYZ'' ''abcdefghijklmnopqrstuvwxyz'') c of
        Some d \<Rightarrow> d
      | None \<Rightarrow> c)"

definition uses_params :: "string list" where
  "uses_params = ['''', ''ftp'', ''hdl'', ''prospero'', ''http'', ''imap'', ''https'', ''shttp'',
                  ''rtsp'', ''rtspu'', ''sip'', ''sips'', ''mms'', ''sftp'', ''tel'']"

text \<open>The scheme and the rest of the url; the scheme is empty when none is recognised.\<close>

definition split_scheme :: "string \<Rightarrow> string \<times> string" where
  "split_scheme url =
     (let head = takeWhile (\<lambda>c. c \<noteq> CHR '':'') url in
      if CHR '':'' \<in> set url \<and> head \<noteq> [] \<and> (\<forall>c \<in> set head. c \<in> set scheme_chars)
      then (map lower_char head, drop (Suc (length head)) url)
      else ([], url))"

text \<open>\<open>_splitparams\<close>, applied when the url contains \<open>;\<close>: the path without parameters.\<close>

definition strip_params :: "string \<Rightarrow> string" where
  "strip_params url =
     (let seg = rev (takeWhile (\<lambda>c. c \<noteq> CHR ''/'') (rev url)) in
      take (length url - length seg) url @ takeWhile (\<lambda>c. c \<noteq> CHR '';'') seg)"

definition urlparse_plain :: urlparser where
  "urlparse_plain url0 =
     (let url1 = filter (\<lambda>c. c \<noteq> CHR 0x09 \<and> c \<noteq> CHR 0x0D \<and> c \<noteq> CHR 0x0A) url0;
          (scheme, url2) = split_scheme url1;
          in_netloc = (\<lambda>c. c \<noteq> CHR ''/'' \<and> c \<noteq> CHR ''?'' \<and> c \<noteq> CHR ''#'');
          (nl, url3) = (if take 2 url2 = ''//''
                        then (takeWhile in_netloc (drop 2 url2), dropWhile in_netloc (drop 2 url2))
                        else ([], url2))
      in if (CHR ''['' \<in> set nl) \<noteq> (CHR '']'' \<in> set nl) then Inl (ValueError ''Invalid IPv6 URL'')
         else (let url4 = takeWhile (\<lambda>c. c \<noteq> CHR ''#'') url3;
                   url5 = takeWhile (\<lambda>c. c \<noteq> CHR ''?'') url4;
                   url6 = (if scheme \<in> set uses_params \<and> CHR '';'' \<in> set url5
                           then strip_params url5 else url5)
               in Inr \<lparr>netloc = nl, path = url6\<rparr>))"

section \<open>Paths and the file system\<close>

text \<open>
  A path is the list of its components below the root. \<open>parts\<close> is
  \<open>PurePosixPath(s).parts\<close> without the root marker: empty components and \<open>.\<close> are
  dropped, \<open>..\<close> is kept. \<open>pjoin base s\<close> is \<open>base / s\<close>: an absolute \<open>s\<close>
  replaces the base. \<open>parent\<close> is \<open>PurePath.parent\<close>, which drops the last component
  whatever it is.
\<close>

type_synonym fpath = "string list"

definition parts :: "string \<Rightarrow> fpath" where
  "parts s = filter (\<lambda>c. c \<noteq> [] \<and> c \<noteq> ''.'') (split_on CHR ''/'' s)"

definition pjoin :: "fpath \<Rightarrow> string \<Rightarrow> fpath" where
  "pjoin base s = (if startswith s ''/'' then parts s else base @ parts s)"

text \<open>\<open>Path(s).name\<close>: the last component, or the empty string when there is none.\<close>

definition name_of :: "string \<Rightarrow> string" where
  "name_of s = (case parts s of [] \<Rightarrow> [] | c # cs \<Rightarrow> last (c # cs))"

text \<open>
  \<open>PurePath.suffix\<close> of a file name: with \<open>i = name.rfind(".")\<close>, the suffix is
  \<open>name[i:]\<close> when \<open>0 < i < len(name) - 1\<close> and the empty string otherwise.
\<close>

definition name_suffix :: "string \<Rightarrow> string" where
  "name_suffix nm =
     (if CHR ''.'' \<notin> set nm then []
      else (let tl_part = rev (takeWhile (\<lambda>c. c \<noteq> CHR ''.'') (rev nm));
                i = length nm - length tl_part - 1
            in if 0 < i \<and> i < length nm - 1 then drop i nm else []))"

definition path_suffix :: "fpath \<Rightarrow> string" where
  "path_suffix p = (if p = [] then [] else name_suffix (last p))"

definition parent :: "fpath \<Rightarrow> fpath" where
  "parent p = butlast p"

text \<open>
  The file system is an association list from the locations of its entries to nodes; a
  location is a path without \<open>..\<close>. The order of the list is the order in which
  directory listings (\<open>glob\<close>, \<open>rglob\<close>) yield entries. The root is always a directory.
  A file holds bytes. There are no symbolic links.
\<close>

datatype node = Dir | File string

type_synonym filesys = "(fpath \<times> node) list"

definition entry :: "filesys \<Rightarrow> fpath \<Rightarrow> node option" where
  "entry fs loc = (if loc = [] then Some Dir else map_of fs loc)"

text \<open>
  Path resolution as the operating system does it: each component is looked up in the
  directory reached so far, which must exist and be a directory; \<open>..\<close> leads to the
  parent (the root is its own parent). The last component itself need not exist.
\<close>

fun walk :: "filesys \<Rightarrow> fpath \<Rightarrow> string list \<Rightarrow> py_error + fpath" where
  "walk fs cur [] = Inr cur"
| "walk fs cur (c # cs) =
     (case entry fs cur of
        None \<Rightarrow> Inl FileNotFoundError
      | Some (File _) \<Rightarrow> Inl NotADirectoryError
      | Some Dir \<Rightarrow> walk fs (if c = ''..'' then butlast cur else cur @ [c]) cs)"

definition resolve :: "filesys \<Rightarrow> fpath \<Rightarrow> py_error + fpath" where
  "resolve fs p = walk fs [] p"

text \<open>The node a path leads to, if any (\<open>Path.exists\<close>, \<open>Path.is_dir\<close>).\<close>

definition node_at :: "filesys \<Rightarrow> fpath \<Rightarrow> node option" where
  "node_at fs p = (case resolve fs p of Inl _ \<Rightarrow> None | Inr loc \<Rightarrow> entry fs loc)"

text \<open>\<open>os.mkdir(p)\<close>.\<close>

definition os_mkdir :: "filesys \<Rightarrow> fpath \<Rightarrow> py_error + filesys" where
  "os_mkdir fs p =
     (case resolve fs p of
        Inl e \<Rightarrow> Inl e
      | Inr loc \<Rightarrow>
          (case entry fs loc of
             Some _ \<Rightarrow> Inl FileExistsError
           | None \<Rightarrow> Inr (AList.update loc Dir fs)))"

text \<open>
  \<open>Path.mkdir(parents=False, exist_ok=True)\<close>: \<open>FileNotFoundError\<close> is raised again;
  any other error is ignored when the path is a directory.
\<close>

definition mkdir_last :: "filesys \<Rightarrow> fpath \<Rightarrow> py_error + filesys" where
  "mkdir_last fs p =
     (case os_mkdir fs p of
        Inr fs' \<Rightarrow> Inr fs'
      | Inl e \<Rightarrow>
          if e = FileNotFoundError then Inl e
          else if node_at fs p = Some Dir then Inr fs else Inl e)"

text \<open>
  \<open>Path.mkdir(parents=True, exist_ok=True)\<close>, as pathlib writes it: on
  \<open>FileNotFoundError\<close> the parent is created first (unless the path is its own
  parent) and the directory is made again without \<open>parents\<close>.
\<close>

function mkdir_p :: "filesys \<Rightarrow> fpath \<Rightarrow> py_error + filesys" where
  "mkdir_p fs p =
     (case os_mkdir fs p of
        Inr fs' \<Rightarrow> Inr fs'
      | Inl e \<Rightarrow>
          if e = FileNotFoundError then
            (if p = [] then Inl e
             else (case mkdir_p fs (butlast p) of
                     Inl e' \<Rightarrow> Inl e'
                   | Inr fs1 \<Rightarrow> mkdir_last fs1 p))
          else if node_at fs p = Some Dir then Inr fs else Inl e)"
  by pat_completeness auto
termination
  by (relation "measure (\<lambda>(fs, p). length p)") auto

declare mkdir_p.simps [simp del]

text \<open>Reading the bytes of a file (\<open>open(p, "rb").read()\<close>).\<close>

definition read_bytes :: "filesys \<Rightarrow> fpath \<Rightarrow> py_error + string" where
  "read_bytes fs p =
     (case resolve fs p of
        Inl e \<Rightarrow> Inl e
      | Inr loc \<Rightarrow>
          (case entry fs loc of
             None \<Rightarrow> Inl FileNotFoundError
           | Some Dir \<Rightarrow> Inl IsADirectoryError
           | Some (File b) \<Rightarrow> Inr b))"

text \<open>
  Opening a path for writing and writing the bytes (\<open>open("wb")\<close> then \<open>write\<close>): the
  file is created or replaced; a directory at the path raises \<open>IsADirectoryError\<close>, a
  missing parent \<open>FileNotFoundError\<close>.
\<close>

definition write_file :: "filesys \<Rightarrow> fpath \<Rightarrow> string \<Rightarrow> py_error + filesys" where
  "write_file fs p content =
     (case resolve fs p of
        Inl e \<Rightarrow> Inl e
      | Inr loc \<Rightarrow>
          (case entry fs loc of
             Some Dir \<Rightarrow> Inl IsADirectoryError
           | _ \<Rightarrow> Inr (AList.update loc (File content) fs)))"

text \<open>
  \<open>Path.unlink()\<close> removes a file; on a directory it raises (\<open>IsADirectoryError\<close> on
  Linux, \<open>PermissionError\<close> on macOS) and removes nothing.
\<close>

definition unlink :: "filesys \<Rightarrow> fpath \<Rightarrow> py_error + filesys" where
  "unlink fs p =
     (case resolve fs p of
        Inl e \<Rightarrow> Inl e
      | Inr loc \<Rightarrow>
          (case entry fs loc of
             None \<Rightarrow> Inl FileNotFoundError
           | Some Dir \<Rightarrow> Inl IsADirectoryError
           | Some (File _) \<Rightarrow> Inr (AList.delete loc fs)))"

text \<open>
  \<open>folder.glob("*")\<close>: the entries directly inside \<open>folder\<close>, each given by its
  location; nothing when \<open>folder\<close> is not a directory.
\<close>

definition glob_star :: "filesys \<Rightarrow> fpath \<Rightarrow> fpath list" where
  "glob_star fs fldr =
     (case resolve fs fldr of
        Inl _ \<Rightarrow> []
      | Inr loc \<Rightarrow>
          if entry fs loc = Some Dir
          then map fst (filter (\<lambda>(q, n). q \<noteq> [] \<and> butlast q = loc) fs)
          else [])"

text \<open>\<open>folder.rglob("*")\<close>: every entry below \<open>folder\<close>, at any depth.\<close>

definition rglob_star :: "filesys \<Rightarrow> fpath \<Rightarrow> (fpath \<times> node) list" where
  "rglob_star fs fldr =
     (case resolve fs fldr of
        Inl _ \<Rightarrow> []
      | Inr loc \<Rightarrow>
          if entry fs loc = Some Dir then filter (\<lambda>(q, n). strict_prefix loc q) fs else [])"

text \<open>
  Removing the directory tree at a location (the clean-up of a temporary directory,
  whose path is absolute and free of \<open>..\<close>).
\<close>

definition rmtree :: "fpath \<Rightarrow> filesys \<Rightarrow> filesys" where
  "rmtree t fs = filter (\<lambda>(q, n). \<not> prefix t q) fs"

text \<open>What a successful \<open>mkdir\<close> of the last component of \<open>p\<close> has done: the
  directories above \<open>p\<close> exist, and \<open>p\<close> was created or was a directory already.\<close>

definition made :: "filesys \<Rightarrow> fpath \<Rightarrow> filesys \<Rightarrow> bool" where
  "made fsys p fs' \<longleftrightarrow>
     (\<forall>q. strict_prefix q p \<longrightarrow> entry fsys q = Some Dir)
     \<and> (fs' = AList.update p Dir fsys \<and> entry fsys p = None \<or> fs' = fsys \<and> entry fsys p = Some Dir)"

text \<open>
  The world a call runs in: the local file system and, in \<open>ext\<close>, everything else the
  library calls depend on or change (the network, remote hosts).
\<close>

record 'x world =
  disk :: filesys
  ext :: 'x

section \<open>Downloader dispatch (downloaders/common.py)\<close>

text \<open>
  A downloader takes the destination folder and the URI and returns a path or raises;
  it may change the world either way. The registry \<open>downloaders\<close> is the list of the
  registered downloaders in registration order (\<open>Registry.values()\<close> iterates in
  insertion order).
\<close>

type_synonym 'x downloader = "fpath \<Rightarrow> string \<Rightarrow> 'x world \<Rightarrow> (exn + fpath) \<times> 'x world"

text \<open>
  The library calls of this package that are not modelled on the file system above:
  \<^item> \<open>read_uri\<close>: \<open>with fsspec.open(uri, "rb") as f: data = f.read()\<close>;
  \<^item> \<open>get_tree\<close>: \<open>fsspec.filesystem("file").get(uri, str(dst), recursive=True)\<close>;
  \<^item> \<open>mkdtemp\<close>: the path \<open>tempfile.TemporaryDirectory()\<close> creates in the given world;
  \<^item> \<open>decode\<close> and \<open>encode\<close>: the text encoding \<open>read_text\<close> and \<open>write_text\<close> use,
    \<open>None\<close> when the bytes or the text cannot be converted;
  \<^item> \<open>ast_parse\<close>: \<open>ast.parse(code)\<close>, \<open>None\<close> when the code parses and the exception
    otherwise;
  \<^item> \<open>get_text\<close>: \<open>httpx.get(url)\<close>, \<open>raise_for_status()\<close> and \<open>.text\<close> (the legacy
    module's \<open>_get_text\<close>).
\<close>

record 'x lib =
  read_uri :: "string \<Rightarrow> 'x world \<Rightarrow> (py_error + string) \<times> 'x world"
  get_tree :: "string \<Rightarrow> fpath \<Rightarrow> 'x world \<Rightarrow> (py_error + unit) \<times> 'x world"
  mkdtemp :: "'x world \<Rightarrow> fpath"
  decode :: "string \<Rightarrow> string option"
  encode :: "string \<Rightarrow> string option"
  ast_parse :: "string \<Rightarrow> py_error option"
  get_text :: "string \<Rightarrow> 'x world \<Rightarrow> (py_error + string) \<times> 'x world"

text \<open>\<open>Path.read_text()\<close>: the bytes of the file, decoded.\<close>

definition read_text :: "'x lib \<Rightarrow> filesys \<Rightarrow> fpath \<Rightarrow> py_error + string" where
  "read_text L fsys p =
     (case read_bytes fsys p of
        Inl e \<Rightarrow> Inl e
      | Inr b \<Rightarrow> (case decode L b of None \<Rightarrow> Inl UnicodeDecodeError | Some s \<Rightarrow> Inr s))"

text \<open>\<open>Path.write_text(s)\<close>: the file is opened for writing, then the text is encoded
  and written.\<close>

definition write_text :: "'x lib \<Rightarrow> filesys \<Rightarrow> fpath \<Rightarrow> string \<Rightarrow> (py_error + unit) \<times> filesys" where
  "write_text L fsys p s =
     (case write_file fsys p [] of
        Inl e \<Rightarrow> (Inl e, fsys)
      | Inr fs0 \<Rightarrow>
          (case encode L s of
             None \<Rightarrow> (Inl UnicodeEncodeError, fs0)
           | Some b \<Rightarrow>
               (case write_file fs0 p b of
                  Inl e \<Rightarrow> (Inl e, fs0)
                | Inr fs1 \<Rightarrow> (Inr (), fs1))))"

text \<open>The handler of \<open>IsADirectoryError\<close> in \<open>_download_generic\<close>, then \<open>return dst\<close>.\<close>

definition get_into :: "'x lib \<Rightarrow> fpath \<Rightarrow> string \<Rightarrow> 'x world \<Rightarrow> (exn + fpath) \<times> 'x world" where
  "get_into L dst uri w =
     (case get_tree L uri dst w of
        (Inl e, w') \<Rightarrow> (Inl (Py e), w')
      | (Inr _, w') \<Rightarrow> (Inr dst, w'))"

text \<open>
  \<open>_download_generic\<close>. \<open>dst /= Path(uri).name\<close> runs before the file is opened for
  writing, so an \<open>IsADirectoryError\<close> raised there is handled with the extended \<open>dst\<close>.
\<close>

definition download_generic :: "'x lib \<Rightarrow> 'x downloader" where
  "download_generic L dst uri w =
     (case read_uri L uri w of
        (Inl e, w1) \<Rightarrow>
          if e = IsADirectoryError then get_into L dst uri w1 else (Inl (Py e), w1)
      | (Inr data, w1) \<Rightarrow>
          (let dst' = pjoin dst (name_of uri) in
           case write_file (disk w1) dst' data of
             Inl e \<Rightarrow>
               if e = IsADirectoryError then get_into L dst' uri w1 else (Inl (Py e), w1)
           | Inr fs' \<Rightarrow> (Inr dst', w1\<lparr>disk := fs'\<rparr>)))"

text \<open>
  \<open>download_uri\<close>: the \<open>for\<close> loop over the registry with its \<open>else\<close> branch. A
  downloader that raises \<open>NonMatchingURI\<close> is passed over; any other outcome (a path or
  another exception) ends the call; the \<open>else\<close> branch runs when the loop ends without
  a \<open>return\<close>.
\<close>

fun download_uri :: "'x downloader list \<Rightarrow> 'x lib \<Rightarrow> 'x downloader" where
  "download_uri [] L dst uri w = download_generic L dst uri w"
| "download_uri (processor # rest) L dst uri w =
     (case processor dst uri w of
        (Inl NonMatchingURI, w') \<Rightarrow> download_uri rest L dst uri w'
      | (r, w') \<Rightarrow> (r, w'))"

text \<open>
  The world after every downloader of the list has declined in turn, \<open>None\<close> when one of
  them does not decline.
\<close>

fun all_decline :: "'x downloader list \<Rightarrow> fpath \<Rightarrow> string \<Rightarrow> 'x world \<Rightarrow> 'x world option" where
  "all_decline [] dst uri w = Some w"
| "all_decline (d # ds) dst uri w =
     (case d dst uri w of
        (Inl NonMatchingURI, w') \<Rightarrow> all_decline ds dst uri w'
      | _ \<Rightarrow> None)"

section \<open>Groups (group.py)\<close>

text \<open>
  A dependency declaration value: a string, a list, a dict (of strings), or a value of
  any other type the manifest can hold.
\<close>

datatype dep = DStr string | DList "string list" | DDict "(string \<times> string) list" | DOther

text \<open>
  \<open>GroupConfig\<close> with the \<open>folder\<close> that \<open>Group.__init__\<close> computes. The dependencies
  dict is an association list in insertion order.
\<close>

record group =
  gname :: string
  optional :: bool
  dependencies :: "(string \<times> dep) list"
  folder :: fpath

text \<open>\<open>Group.clean\<close>. The loop stops at the first \<open>unlink\<close> that raises.\<close>

fun clean_loop :: "string set \<Rightarrow> fpath list \<Rightarrow> filesys \<Rightarrow> (py_error + unit) \<times> filesys" where
  "clean_loop deps [] fsys = (Inr (), fsys)"
| "clean_loop deps (existing_dep # rest) fsys =
     (if last existing_dep \<in> deps then clean_loop deps rest fsys
      else (case unlink fsys existing_dep of
              Inl e \<Rightarrow> (Inl e, fsys)
            | Inr fs' \<Rightarrow> clean_loop deps rest fs'))"

definition clean :: "group \<Rightarrow> filesys \<Rightarrow> (py_error + unit) \<times> filesys" where
  "clean g fsys =
     (if node_at fsys (folder g) = None then (Inr (), fsys)
      else clean_loop (set (map fst (dependencies g))) (glob_star fsys (folder g)) fsys)"

text \<open>
  \<open>_verify_files\<close>: the first entry with suffix \<open>.py\<close> that cannot be read, decoded or
  parsed.
\<close>

fun verify_entries :: "'x lib \<Rightarrow> (fpath \<times> node) list \<Rightarrow> py_error option" where
  "verify_entries L [] = None"
| "verify_entries L ((f, n) # rest) =
     (if path_suffix f = ''.py'' then
        (case n of
           Dir \<Rightarrow> Some IsADirectoryError
         | File b \<Rightarrow>
             (case decode L b of
                None \<Rightarrow> Some UnicodeDecodeError
              | Some code \<Rightarrow>
                  (case ast_parse L code of
                     Some e \<Rightarrow> Some e
                   | None \<Rightarrow> verify_entries L rest)))
      else verify_entries L rest)"

definition verify_files :: "'x lib \<Rightarrow> fpath \<Rightarrow> filesys \<Rightarrow> py_error option" where
  "verify_files L fldr fsys = verify_entries L (rglob_star fsys fldr)"

text \<open>
  \<open>sync\<close> (belay.packagemanager.sync) is a collaborator of \<open>Group.download\<close>: a
  parameter of the model, of this type.
\<close>

type_synonym 'x syncer = "fpath \<Rightarrow> fpath \<Rightarrow> 'x world \<Rightarrow> (exn + bool) \<times> 'x world"

text \<open>The three-way test on the type of the declaration value.\<close>

definition normalize :: "dep \<Rightarrow> py_error + (string \<times> string) list" where
  "normalize dep_src =
     (case dep_src of
        DStr s \<Rightarrow> Inr [(''remote'', s)]
      | DList _ \<Rightarrow> Inl (NotImplementedError ''List dependencies not yet supported.'')
      | DDict d \<Rightarrow> Inr d
      | DOther \<Rightarrow> Inl (NotImplementedError ''Dictionary dependencies not yet supported.''))"

text \<open>
  The body of \<open>with tempfile.TemporaryDirectory() as tmp_dir\<close>, in the world where the
  temporary directory exists.
\<close>

definition stage_body ::
  "'x downloader list \<Rightarrow> 'x lib \<Rightarrow> 'x syncer \<Rightarrow> (string \<times> string) list \<Rightarrow> fpath \<Rightarrow> fpath
     \<Rightarrow> 'x world \<Rightarrow> (exn + bool) \<times> 'x world" where
  "stage_body ds L sync dep_src local_folder tmp_dir w =
     (case map_of dep_src ''remote'' of
        None \<Rightarrow> (Inl (Py (KeyError ''remote'')), w)
      | Some uri \<Rightarrow>
          (case download_uri ds L tmp_dir uri w of
             (Inl e, w3) \<Rightarrow> (Inl e, w3)
           | (Inr _, w3) \<Rightarrow>
               (case verify_files L tmp_dir (disk w3) of
                  Some e \<Rightarrow> (Inl (Py e), w3)
                | None \<Rightarrow> sync tmp_dir local_folder w3)))"

text \<open>
  The \<open>with\<close> statement: the temporary directory is created, the body runs, and the
  directory is removed on every exit, normal or not.
\<close>

definition staged ::
  "'x downloader list \<Rightarrow> 'x lib \<Rightarrow> 'x syncer \<Rightarrow> (string \<times> string) list \<Rightarrow> fpath
     \<Rightarrow> 'x world \<Rightarrow> (exn + bool) \<times> 'x world" where
  "staged ds L sync dep_src local_folder w =
     (let tmp_dir = mkdtemp L w;
          (r, w') = stage_body ds L sync dep_src local_folder tmp_dir
                      (w\<lparr>disk := AList.update tmp_dir Dir (disk w)\<rparr>)
      in (r, w'\<lparr>disk := rmtree tmp_dir (disk w')\<rparr>))"

text \<open>
  One iteration of the loop of \<open>Group.download\<close>; the result is \<open>changed\<close>. Console
  logging is left out: it is optional and touches neither the file system nor the
  downloaders.
\<close>

definition download_package ::
  "'x downloader list \<Rightarrow> 'x lib \<Rightarrow> 'x syncer \<Rightarrow> group \<Rightarrow> string
     \<Rightarrow> 'x world \<Rightarrow> (exn + bool) \<times> 'x world" where
  "download_package ds L sync g package_name w =
     (let local_folder = pjoin (folder g) package_name in
      case mkdir_p (disk w) local_folder of
        Inl e \<Rightarrow> (Inl (Py e), w)
      | Inr fs1 \<Rightarrow>
          (case map_of (dependencies g) package_name of
             None \<Rightarrow> (Inl (Py (KeyError package_name)), w\<lparr>disk := fs1\<rparr>)
           | Some dep_src \<Rightarrow>
               (case normalize dep_src of
                  Inl e \<Rightarrow> (Inl (Py e), w\<lparr>disk := fs1\<rparr>)
                | Inr d \<Rightarrow> staged ds L sync d local_folder (w\<lparr>disk := fs1\<rparr>))))"

text \<open>The \<open>for\<close> loop: an exception ends it and propagates to the caller.\<close>

fun download_loop ::
  "'x downloader list \<Rightarrow> 'x lib \<Rightarrow> 'x syncer \<Rightarrow> group \<Rightarrow> string list
     \<Rightarrow> 'x world \<Rightarrow> (exn + unit) \<times> 'x world" where
  "download_loop ds L sync g [] w = (Inr (), w)"
| "download_loop ds L sync g (package_name # rest) w =
     (case download_package ds L sync g package_name w of
        (Inl e, w') \<Rightarrow> (Inl e, w')
      | (Inr _, w') \<Rightarrow> download_loop ds L sync g rest w')"

text \<open>\<open>Group.download\<close>: \<open>packages\<close> is \<open>None\<close> or a list.\<close>

definition download ::
  "'x downloader list \<Rightarrow> 'x lib \<Rightarrow> 'x syncer \<Rightarrow> group \<Rightarrow> string list option
     \<Rightarrow> 'x world \<Rightarrow> (exn + unit) \<times> 'x world" where
  "download ds L sync g packages w =
     (let packages' = (case packages of None \<Rightarrow> map fst (dependencies g) | Some ps \<Rightarrow> ps) in
      if packages' = [] then (Inr (), w)
      else download_loop ds L sync g packages' w)"

section \<open>The legacy single-file download (packagemanager.py)\<close>

text \<open>
  One iteration of the loop of \<open>download_dependencies\<close>. \<open>sleep(1)\<close> and the console
  logging are left out. A missing \<open>dst\<close> reads as the empty string; any other read error
  propagates.
\<close>

definition legacy_package ::
  "urlparser \<Rightarrow> 'x lib \<Rightarrow> (string \<times> dep) list \<Rightarrow> fpath \<Rightarrow> string
     \<Rightarrow> 'x world \<Rightarrow> (exn + unit) \<times> 'x world" where
  "legacy_package up L deps local_dir pkg_name w =
     (case map_of deps pkg_name of
        None \<Rightarrow> (Inl (Py (KeyError pkg_name)), w)
      | Some dep0 \<Rightarrow>
          (case (case dep0 of DStr s \<Rightarrow> Some [(''path'', s)] | DDict d \<Rightarrow> Some d | _ \<Rightarrow> None) of
             None \<Rightarrow> (Inl (Py (ValueError (''Invalid value for key '' @ pkg_name @ ''.''))), w)
           | Some d \<Rightarrow>
               (case map_of d ''path'' of
                  None \<Rightarrow> (Inl (Py (KeyError ''path'')), w)
                | Some loc \<Rightarrow>
                    (case process_url up loc of
                       Inl e \<Rightarrow> (Inl e, w)
                     | Inr url \<Rightarrow>
                         (let ext0 = name_suffix (name_of url) in
                          if ext0 = ''.py'' then
                            (let dst = pjoin local_dir (pkg_name @ ext0) in
                             case mkdir_p (disk w) (parent dst) of
                               Inl e \<Rightarrow> (Inl (Py e), w)
                             | Inr fs1 \<Rightarrow>
                                 (case get_text L url (w\<lparr>disk := fs1\<rparr>) of
                                    (Inl e, w2) \<Rightarrow> (Inl (Py e), w2)
                                  | (Inr new_code, w2) \<Rightarrow>
                                      (case ast_parse L new_code of
                                         Some e \<Rightarrow> (Inl (Py e), w2)
                                       | None \<Rightarrow>
                                           (case (case read_text L (disk w2) dst of
                                                    Inl e \<Rightarrow> if e = FileNotFoundError then Inr [] else Inl e
                                                  | Inr old \<Rightarrow> Inr old) of
                                              Inl e \<Rightarrow> (Inl (Py e), w2)
                                            | Inr old_code \<Rightarrow>
                                                if new_code = old_code then (Inr (), w2)
                                                else (case write_text L (disk w2) dst new_code of
                                                        (Inl e, fs3) \<Rightarrow> (Inl (Py e), w2\<lparr>disk := fs3\<rparr>)
                                                      | (Inr _, fs3) \<Rightarrow> (Inr (), w2\<lparr>disk := fs3\<rparr>))))))
                          else (Inl (Py (NotImplementedError
                                  (''Don't know how to process '' @ url @ ''.''))), w))))))"

fun legacy_loop ::
  "urlparser \<Rightarrow> 'x lib \<Rightarrow> (string \<times> dep) list \<Rightarrow> fpath \<Rightarrow> string list
     \<Rightarrow> 'x world \<Rightarrow> (exn + unit) \<times> 'x world" where
  "legacy_loop up L deps local_dir [] w = (Inr (), w)"
| "legacy_loop up L deps local_dir (pkg_name # rest) w =
     (case legacy_package up L deps local_dir pkg_name w of
        (Inl e, w') \<Rightarrow> (Inl e, w')
      | (Inr _, w') \<Rightarrow> legacy_loop up L deps local_dir rest w')"

text \<open>
  \<open>download_dependencies\<close>: \<open>if not packages\<close> holds for \<open>None\<close> and for the empty
  list alike.
\<close>

definition download_dependencies ::
  "urlparser \<Rightarrow> 'x lib \<Rightarrow> (string \<times> dep) list \<Rightarrow> string list option \<Rightarrow> fpath
     \<Rightarrow> 'x world \<Rightarrow> (exn + unit) \<times> 'x world" where
  "download_dependencies up L deps packages local_dir w =
     (let packages' =
        (if packages = None \<or> packages = Some [] then map fst deps else the packages)
      in legacy_loop up L deps local_dir packages' w)"

section \<open>The sync engine\<close>

text \<open>
  Modelled from the spec: \<open>belay.packagemanager.sync.sync\<close> is imported by group.py and
  is not among the sources. The spec (section 6) gives its contract:
  \<open>sync(sourceDir, destDir) -> changed\<close> makes \<open>destDir\<close> mirror \<open>sourceDir\<close>'s file
  set and contents, reports whether anything changed, and does not partially apply on
  failure (it fails atomically, destination unchanged). \<open>fault\<close> says when it fails;
  it also fails when one of the two paths does not lead to a directory.
\<close>

definition subtree :: "filesys \<Rightarrow> fpath \<Rightarrow> (fpath \<times> node) list" where
  "subtree fsys d = map (\<lambda>(q, n). (drop (length d) q, n)) (filter (\<lambda>(q, n). strict_prefix d q) fsys)"

definition sync_spec ::
  "(fpath \<Rightarrow> fpath \<Rightarrow> 'x world \<Rightarrow> exn option) \<Rightarrow> 'x syncer" where
  "sync_spec fault src dst w =
     (case fault src dst w of
        Some e \<Rightarrow> (Inl e, w)
      | None \<Rightarrow>
          (case (resolve (disk w) src, resolve (disk w) dst) of
             (Inr s, Inr d) \<Rightarrow>
               if entry (disk w) s = Some Dir \<and> entry (disk w) d = Some Dir then
                 (Inr (set (subtree (disk w) s) \<noteq> set (subtree (disk w) d)),
                  w\<lparr>disk := filter (\<lambda>(q, n). \<not> strict_prefix d q) (disk w)
                              @ map (\<lambda>(r, n). (d @ r, n)) (subtree (disk w) s)\<rparr>)
               else (Inl (Py NotADirectoryError), w)
           | _ \<Rightarrow> (Inl (Py FileNotFoundError), w)))"

section \<open>Example instances\<close>

text \<open>
  The instances the examples below run on. The rest of the world (\<open>ext\<close>) is the list
  of the URIs fetched so far, so that an example shows which fetches took place.
  \<open>fetch_lib\<close> serves a fixed table of remote contents through both \<open>fsspec.open\<close> and
  \<open>httpx.get\<close>, creates its temporary directory at \<open>/tmp/stage\<close>, converts between
  text and bytes without change (the examples are ASCII), and takes as valid Python
  every text that does not contain \<open>!\<close>.
\<close>

definition fetch_table :: "(string \<times> string) list \<Rightarrow> string \<Rightarrow> string list world
    \<Rightarrow> (py_error + string) \<times> string list world" where
  "fetch_table tbl uri w =
     (case map_of tbl uri of
        None \<Rightarrow> (Inl (OtherError ''not found''), w\<lparr>ext := ext w @ [uri]\<rparr>)
      | Some c \<Rightarrow> (Inr c, w\<lparr>ext := ext w @ [uri]\<rparr>))"

definition fetch_lib :: "(string \<times> string) list \<Rightarrow> string list lib" where
  "fetch_lib tbl =
     \<lparr>read_uri = fetch_table tbl,
      get_tree = (\<lambda>uri dst w. (Inl (OtherError ''no such directory''), w)),
      mkdtemp = (\<lambda>w. [''tmp'', ''stage'']),
      decode = Some,
      encode = Some,
      ast_parse = (\<lambda>code. if CHR ''!'' \<in> set code then Some SyntaxError else None),
      get_text = fetch_table tbl\<rparr>"

text \<open>A downloader that declines every URI, and one that accepts every URI; both leave
  their name in \<open>ext\<close>.\<close>

definition declining :: "string \<Rightarrow> string list downloader" where
  "declining nm dst uri w = (Inl NonMatchingURI, w\<lparr>ext := ext w @ [nm]\<rparr>)"

definition accepting :: "string \<Rightarrow> string list downloader" where
  "accepting nm dst uri w = (Inr dst, w\<lparr>ext := ext w @ [nm]\<rparr>)"

definition no_fault :: "fpath \<Rightarrow> fpath \<Rightarrow> string list world \<Rightarrow> exn option" where
  "no_fault src dst w = None"

definition always_fault :: "fpath \<Rightarrow> fpath \<Rightarrow> string list world \<Rightarrow> exn option" where
  "always_fault src dst w = Some (Py (OtherError ''sync failed''))"

text \<open>The group \<open>main\<close> under \<open>/deps\<close> with the given declarations.\<close>

definition main_group :: "(string \<times> dep) list \<Rightarrow> group" where
  "main_group deps =
     \<lparr>gname = ''main'', optional = False, dependencies = deps, folder = [''deps'', ''main'']\<rparr>"

section \<open>Properties of locator resolution\<close>

lemma split_on_no_sep: "c \<notin> set s \<Longrightarrow> split_on c s = [s]"
  by (induction s) auto

lemma split_on_append:
  "c \<notin> set s \<Longrightarrow> split_on c (s @ c # t) = s # split_on c t"
  by (induction s) auto

lemma split_join:
  "segs \<noteq> [] \<Longrightarrow> \<forall>s\<in>set segs. c \<notin> set s \<Longrightarrow> split_on c (join [c] segs) = segs"
  by (induction "[c]" segs rule: join.induct) (auto simp: split_on_no_sep split_on_append)

lemma split_on_rooted:
  assumes "\<forall>s\<in>set segs. c \<notin> set s" and "segs \<noteq> []"
  shows "split_on c (c # join [c] segs) = [] # segs"
  using assms by (simp add: split_join)

lemmas urlparse_defs =
  urlparse_plain_def split_scheme_def scheme_chars_def lower_char_def uses_params_def
  strip_params_def Let_def

lemma parse_github_example:
  "urlparse_plain ''https://www.github.com/u/p/blob/b/path/to/file''
     = Inr \<lparr>netloc = ''www.github.com'', path = ''/u/p/blob/b/path/to/file''\<rparr>"
  by (simp add: urlparse_defs)

lemma parse_other_example:
  "urlparse_plain ''https://www.example.com/lib/foo.py''
     = Inr \<lparr>netloc = ''www.example.com'', path = ''/lib/foo.py''\<rparr>"
  by (simp add: urlparse_defs)

lemma parse_raw_example:
  "urlparse_plain ''https://www.raw.githubusercontent.com/u/p/b/f.py''
     = Inr \<lparr>netloc = ''www.raw.githubusercontent.com'', path = ''/u/p/b/f.py''\<rparr>"
  by (simp add: urlparse_defs)

lemma parse_query_example:
  "urlparse_plain ''https://raw.githubusercontent.com/u/p/b/f.py?token=abc''
     = Inr \<lparr>netloc = ''raw.githubusercontent.com'', path = ''/u/p/b/f.py''\<rparr>"
  by (simp add: urlparse_defs)

lemma parse_bracket_example:
  "urlparse_plain ''https://[example.com/lib/foo.py'' = Inl (ValueError ''Invalid IPv6 URL'')"
  by (simp add: urlparse_defs)

text \<open>
  C2. When the parsed host, after \<open>_strip_www\<close>, is \<open>github.com\<close> and the parsed path is
  \<open>/user/project/mode/branch/rest...\<close> (segments without \<open>/\<close>), \<open>_process_url\<close> returns
  \<open>https://raw.githubusercontent.com/user/project/branch/rest...\<close>: the mode segment
  is dropped and the host is the raw-content host. With no segment after the branch
  the result ends in \<open>branch/\<close>.
\<close>

theorem github_url_rewritten:
  assumes parsed: "up url = Inr parsed"
    and host: "strip_www (netloc parsed) = ''github.com''"
    and segments: "path parsed = CHR ''/'' # join ''/'' (user # project # mode # branch # rest)"
    and clean_segments: "\<forall>s \<in> set (user # project # mode # branch # rest). CHR ''/'' \<notin> set s"
  shows "process_url up url =
           Inr (''https://raw.githubusercontent.com/'' @ user @ ''/'' @ project @ ''/''
                @ branch @ ''/'' @ join ''/'' rest)"
proof -
  have "split_on CHR ''/'' (path parsed) = [] # user # project # mode # branch # rest"
    unfolding segments using clean_segments by (intro split_on_rooted) simp_all
  then show ?thesis
    using parsed host by (simp add: process_url_def process_url_github_def)
qed

theorem github_url_rewritten_witness:
  "process_url urlparse_plain ''https://www.github.com/u/p/blob/b/path/to/file''
     = Inr ''https://raw.githubusercontent.com/u/p/b/path/to/file''"
  using github_url_rewritten [of urlparse_plain "''https://www.github.com/u/p/blob/b/path/to/file''"
      "\<lparr>netloc = ''www.github.com'', path = ''/u/p/blob/b/path/to/file''\<rparr>"
      "''u''" "''p''" "''blob''" "''b''" "[''path'', ''to'', ''file'']"]
  by (simp add: parse_github_example strip_www_def startswith_def)

text \<open>
  C5, as the code has it. When \<open>urlparse\<close> accepts the locator and its host, after
  \<open>_strip_www\<close>, is neither \<open>github.com\<close> nor \<open>raw.githubusercontent.com\<close>,
  \<open>_process_url\<close> returns the input string itself and raises nothing. When \<open>urlparse\<close>
  raises, \<open>_process_url\<close> raises the same exception: it catches \<open>NonMatchingURL\<close> only.
\<close>

theorem other_host_unchanged:
  "(up url = Inr parsed \<and> strip_www (netloc parsed) \<noteq> ''github.com''
      \<and> strip_www (netloc parsed) \<noteq> ''raw.githubusercontent.com''
      \<longrightarrow> process_url up url = Inr url)
   \<and> (up url = Inl e \<longrightarrow> process_url up url = Inl (Py e))"
  by (simp add: process_url_def process_url_github_def)

theorem other_host_unchanged_witness:
  "process_url urlparse_plain ''https://www.example.com/lib/foo.py''
     = Inr ''https://www.example.com/lib/foo.py''"
  using other_host_unchanged [of urlparse_plain "''https://www.example.com/lib/foo.py''"
      "\<lparr>netloc = ''www.example.com'', path = ''/lib/foo.py''\<rparr>"]
  by (simp add: parse_other_example strip_www_def startswith_def)

text \<open>
  C5 as stated fails on a locator that \<open>urlparse\<close> rejects: the host of
  \<open>https://[example.com/lib/foo.py\<close> is neither of the two recognised hosts, and
  resolution raises \<open>ValueError\<close> instead of returning the input.
\<close>

theorem unparsable_locator_raises:
  "process_url urlparse_plain ''https://[example.com/lib/foo.py''
     = Inl (Py (ValueError ''Invalid IPv6 URL''))"
  by (simp add: process_url_def process_url_github_def parse_bracket_example)

text \<open>
  C6, as the code has it. When the host, after \<open>_strip_www\<close>, is
  \<open>raw.githubusercontent.com\<close>, \<open>_process_url\<close> returns
  \<open>https://raw.githubusercontent.com\<close> followed by the parsed path, unchanged. Nothing
  else of the input is carried over: the scheme becomes \<open>https\<close>, and the parameters,
  query and fragment are left out.
\<close>

theorem raw_url_rebuilt_from_path:
  assumes "up url = Inr parsed"
    and "strip_www (netloc parsed) = ''raw.githubusercontent.com''"
  shows "process_url up url = Inr (''https://raw.githubusercontent.com'' @ path parsed)"
  using assms by (simp add: process_url_def process_url_github_def)

theorem raw_url_rebuilt_from_path_witness:
  "process_url urlparse_plain ''https://www.raw.githubusercontent.com/u/p/b/f.py''
     = Inr ''https://raw.githubusercontent.com/u/p/b/f.py''"
  using raw_url_rebuilt_from_path [of urlparse_plain "''https://www.raw.githubusercontent.com/u/p/b/f.py''"
      "\<lparr>netloc = ''www.raw.githubusercontent.com'', path = ''/u/p/b/f.py''\<rparr>"]
  by (simp add: parse_raw_example strip_www_def startswith_def)

text \<open>
  C6 as stated fails on a raw-content URL with a query string: the host is already the
  raw-content host, and the result is not the input, because the query is dropped.
\<close>

theorem raw_url_query_dropped:
  "urlparse_plain ''https://raw.githubusercontent.com/u/p/b/f.py?token=abc''
     = Inr \<lparr>netloc = ''raw.githubusercontent.com'', path = ''/u/p/b/f.py''\<rparr>
   \<and> process_url urlparse_plain ''https://raw.githubusercontent.com/u/p/b/f.py?token=abc''
     = Inr ''https://raw.githubusercontent.com/u/p/b/f.py''
   \<and> process_url urlparse_plain ''https://raw.githubusercontent.com/u/p/b/f.py?token=abc''
     \<noteq> Inr ''https://raw.githubusercontent.com/u/p/b/f.py?token=abc''"
  by (simp add: process_url_def process_url_github_def parse_query_example strip_www_def startswith_def)

section \<open>Properties of downloader dispatch\<close>

lemma download_uri_all_decline:
  "all_decline ds dst uri w = Some w1 \<Longrightarrow> download_uri ds L dst uri w = download_generic L dst uri w1"
  by (induction ds arbitrary: w) (auto split: prod.splits sum.splits exn.splits)

lemma download_uri_first_taker:
  "all_decline ds1 dst uri w = Some w1 \<Longrightarrow> d dst uri w1 = (r, w2) \<Longrightarrow> r \<noteq> Inl NonMatchingURI
     \<Longrightarrow> download_uri (ds1 @ d # ds2) L dst uri w = (r, w2)"
  by (induction ds1 arbitrary: w) (auto split: prod.splits sum.splits exn.splits)

lemma some_downloader_takes:
  "all_decline ds dst uri w = None \<Longrightarrow>
     \<exists>ds1 d ds2 w1 r w2. ds = ds1 @ d # ds2 \<and> all_decline ds1 dst uri w = Some w1
        \<and> d dst uri w1 = (r, w2) \<and> r \<noteq> Inl NonMatchingURI"
proof (induction ds arbitrary: w)
  case Nil
  then show ?case by simp
next
  case (Cons d ds)
  obtain r w' where step: "d dst uri w = (r, w')" by (cases "d dst uri w")
  show ?case
  proof (cases "r = Inl NonMatchingURI")
    case True
    with Cons.prems step have "all_decline ds dst uri w' = None" by simp
    from Cons.IH [OF this] obtain ds1 d' ds2 w1 r' w2 where
      *: "ds = ds1 @ d' # ds2" "all_decline ds1 dst uri w' = Some w1"
         "d' dst uri w1 = (r', w2)" "r' \<noteq> Inl NonMatchingURI" by blast
    have "all_decline (d # ds1) dst uri w = Some w1" using step True * by simp
    moreover have "d # ds = (d # ds1) @ d' # ds2" using * by simp
    ultimately show ?thesis using * by blast
  next
    case False
    have "d # ds = [] @ d # ds" "all_decline [] dst uri w = Some w" by simp_all
    with step False show ?thesis by blast
  qed
qed

lemma get_into_not_declined: "fst (get_into L dst uri w) \<noteq> Inl NonMatchingURI"
  by (simp add: get_into_def split: prod.splits sum.splits)

lemma generic_never_declines: "fst (download_generic L dst uri w) \<noteq> Inl NonMatchingURI"
  by (simp add: download_generic_def get_into_not_declined Let_def split: prod.splits sum.splits)

text \<open>
  C3. \<open>download_uri\<close> tries the registered downloaders in registration order. When all
  of them decline (in particular when none is registered), the result is that of
  \<open>_download_generic\<close>, run in the world the declining downloaders left. When the
  downloaders before \<open>d\<close> decline and \<open>d\<close> does not, the result is \<open>d\<close>'s, whatever the
  later downloaders and the generic strategy would do: they are not run. One of the two
  cases always applies, so the generic strategy runs exactly when every registered
  downloader declines. The generic strategy never raises \<open>NonMatchingURI\<close>.
\<close>

theorem dispatch_in_registration_order:
  "(all_decline ds dst uri w = Some w1 \<longrightarrow>
      download_uri ds L dst uri w = download_generic L dst uri w1)
   \<and> (all_decline ds1 dst uri w = Some w1 \<and> d dst uri w1 = (r, w2) \<and> r \<noteq> Inl NonMatchingURI \<longrightarrow>
      download_uri (ds1 @ d # ds2) L dst uri w = (r, w2))
   \<and> (all_decline ds dst uri w = None \<longrightarrow>
      (\<exists>ds1 d ds2 w1 r w2. ds = ds1 @ d # ds2 \<and> all_decline ds1 dst uri w = Some w1
          \<and> d dst uri w1 = (r, w2) \<and> r \<noteq> Inl NonMatchingURI))
   \<and> download_uri [] L dst uri w = download_generic L dst uri w
   \<and> fst (download_generic L dst uri w) \<noteq> Inl NonMatchingURI"
proof (intro conjI impI)
  assume "all_decline ds dst uri w = Some w1"
  then show "download_uri ds L dst uri w = download_generic L dst uri w1"
    by (rule download_uri_all_decline)
next
  assume "all_decline ds1 dst uri w = Some w1 \<and> d dst uri w1 = (r, w2) \<and> r \<noteq> Inl NonMatchingURI"
  then show "download_uri (ds1 @ d # ds2) L dst uri w = (r, w2)"
    using download_uri_first_taker by blast
next
  assume "all_decline ds dst uri w = None"
  then show "\<exists>ds1 d ds2 w1 r w2. ds = ds1 @ d # ds2 \<and> all_decline ds1 dst uri w = Some w1
          \<and> d dst uri w1 = (r, w2) \<and> r \<noteq> Inl NonMatchingURI"
    by (rule some_downloader_takes)
next
  show "download_uri [] L dst uri w = download_generic L dst uri w" by simp
next
  show "fst (download_generic L dst uri w) \<noteq> Inl NonMatchingURI"
    by (rule generic_never_declines)
qed

theorem dispatch_in_registration_order_witness:
  "download_uri [declining ''first'', accepting ''second'', accepting ''third''] (fetch_lib [])
       [''tmp'', ''stage''] ''http://h/foo.py'' \<lparr>disk = [], ext = []\<rparr>
     = (Inr [''tmp'', ''stage''], \<lparr>disk = [], ext = [''first'', ''second'']\<rparr>)
   \<and> download_uri [declining ''first'', declining ''second''] (fetch_lib [(''http://h/foo.py'', ''x = 1'')])
       [] ''http://h/foo.py'' \<lparr>disk = [], ext = []\<rparr>
     = (Inr [''foo.py''],
        \<lparr>disk = [([''foo.py''], File ''x = 1'')], ext = [''first'', ''second'', ''http://h/foo.py'']\<rparr>)"
proof -
  have a: "all_decline [declining ''first''] [''tmp'', ''stage''] ''http://h/foo.py'' \<lparr>disk = [], ext = []\<rparr>
             = Some \<lparr>disk = [], ext = [''first'']\<rparr>"
    by (simp add: declining_def)
  have b: "accepting ''second'' [''tmp'', ''stage''] ''http://h/foo.py'' \<lparr>disk = [], ext = [''first'']\<rparr>
             = (Inr [''tmp'', ''stage''], \<lparr>disk = [], ext = [''first'', ''second'']\<rparr>)"
    by (simp add: accepting_def)
  have c: "all_decline [declining ''first'', declining ''second''] [] ''http://h/foo.py'' \<lparr>disk = [], ext = []\<rparr>
             = Some \<lparr>disk = [], ext = [''first'', ''second'']\<rparr>"
    by (simp add: declining_def)
  have g: "download_generic (fetch_lib [(''http://h/foo.py'', ''x = 1'')]) [] ''http://h/foo.py''
             \<lparr>disk = [], ext = [''first'', ''second'']\<rparr>
           = (Inr [''foo.py''],
              \<lparr>disk = [([''foo.py''], File ''x = 1'')], ext = [''first'', ''second'', ''http://h/foo.py'']\<rparr>)"
    by (simp add: download_generic_def fetch_lib_def fetch_table_def pjoin_def name_of_def parts_def
        startswith_def write_file_def resolve_def entry_def Let_def)
  from dispatch_in_registration_order
    [of "[declining ''first'']" "[''tmp'', ''stage'']" "''http://h/foo.py''" "\<lparr>disk = [], ext = []\<rparr>"
        "\<lparr>disk = [], ext = [''first'']\<rparr>" "fetch_lib []" "[declining ''first'']"
        "accepting ''second''" "Inr [''tmp'', ''stage'']" "\<lparr>disk = [], ext = [''first'', ''second'']\<rparr>"
        "[accepting ''third'']"]
  have 1: "download_uri [declining ''first'', accepting ''second'', accepting ''third''] (fetch_lib [])
       [''tmp'', ''stage''] ''http://h/foo.py'' \<lparr>disk = [], ext = []\<rparr>
     = (Inr [''tmp'', ''stage''], \<lparr>disk = [], ext = [''first'', ''second'']\<rparr>)"
    using a b by simp
  from dispatch_in_registration_order
    [of "[declining ''first'', declining ''second'']" "[]" "''http://h/foo.py''" "\<lparr>disk = [], ext = []\<rparr>"
        "\<lparr>disk = [], ext = [''first'', ''second'']\<rparr>" "fetch_lib [(''http://h/foo.py'', ''x = 1'')]"]
  have 2: "download_uri [declining ''first'', declining ''second''] (fetch_lib [(''http://h/foo.py'', ''x = 1'')])
       [] ''http://h/foo.py'' \<lparr>disk = [], ext = []\<rparr>
     = (Inr [''foo.py''],
        \<lparr>disk = [([''foo.py''], File ''x = 1'')], ext = [''first'', ''second'', ''http://h/foo.py'']\<rparr>)"
    using c g by simp
  from 1 2 show ?thesis by simp
qed

section \<open>Properties of the file system operations\<close>

lemma map_of_rmtree: "map_of (rmtree t fsys) q = (if prefix t q then None else map_of fsys q)"
  unfolding rmtree_def by (induction fsys) auto

lemma between_step:
  "prefix cur q \<and> strict_prefix q (cur @ c # cs) \<longleftrightarrow>
     q = cur \<or> (prefix (cur @ [c]) q \<and> strict_prefix q ((cur @ [c]) @ cs))"
  by (auto simp: strict_prefix_def prefix_def append_eq_append_conv2 Cons_eq_append_conv
      append_eq_Cons_conv)

text \<open>On a path without \<open>..\<close>, resolution succeeds exactly when every directory on
  the way exists, and it leads to the path itself.\<close>

lemma walk_plain:
  "''..'' \<notin> set cs \<Longrightarrow>
     walk fsys cur cs = Inr loc \<longleftrightarrow>
       loc = cur @ cs \<and> (\<forall>q. prefix cur q \<and> strict_prefix q (cur @ cs) \<longrightarrow> entry fsys q = Some Dir)"
proof (induction cs arbitrary: cur)
  case Nil
  then show ?case by (auto simp: strict_prefix_def)
next
  case (Cons c cs)
  then have c: "c \<noteq> ''..''" and cs: "''..'' \<notin> set cs" by auto
  show ?case
  proof (cases "entry fsys cur")
    case None
    then show ?thesis by (auto simp: between_step)
  next
    case (Some n)
    show ?thesis
    proof (cases n)
      case Dir
      with Some c have "walk fsys cur (c # cs) = walk fsys (cur @ [c]) cs" by simp
      then show ?thesis
        unfolding between_step using Cons.IH [OF cs, of "cur @ [c]"] Some Dir by auto
    next
      case (File x)
      with Some show ?thesis by (auto simp: between_step)
    qed
  qed
qed

lemma resolve_plain:
  "''..'' \<notin> set p \<Longrightarrow>
     resolve fsys p = Inr loc \<longleftrightarrow> loc = p \<and> (\<forall>q. strict_prefix q p \<longrightarrow> entry fsys q = Some Dir)"
  unfolding resolve_def by (simp add: walk_plain)

lemma made_lookup:
  assumes "made fsys p fs'"
  shows "map_of fs' q = (if q \<noteq> [] \<and> prefix q p then Some Dir else map_of fsys q)"
proof (cases "q = p")
  case True
  with assms show ?thesis by (auto simp: made_def entry_def update_conv' split: if_splits)
next
  case False
  show ?thesis
  proof (cases "q \<noteq> [] \<and> prefix q p")
    case True
    with False have "strict_prefix q p" by (simp add: strict_prefix_def)
    with assms have "entry fsys q = Some Dir" by (simp add: made_def)
    with True have "map_of fsys q = Some Dir" by (simp add: entry_def)
    with assms False True show ?thesis by (auto simp: made_def update_conv')
  next
    case no: False
    with assms False show ?thesis by (auto simp: made_def update_conv')
  qed
qed

lemma os_mkdir_made:
  "''..'' \<notin> set p \<Longrightarrow> os_mkdir fsys p = Inr fs' \<Longrightarrow> made fsys p fs'"
  by (auto simp: os_mkdir_def made_def resolve_plain split: sum.splits option.splits)

lemma is_dir_made:
  "''..'' \<notin> set p \<Longrightarrow> node_at fsys p = Some Dir \<Longrightarrow> made fsys p fsys"
  by (auto simp: node_at_def made_def resolve_plain split: sum.splits)

lemma mkdir_last_made:
  "''..'' \<notin> set p \<Longrightarrow> mkdir_last fsys p = Inr fs' \<Longrightarrow> made fsys p fs'"
  by (auto simp: mkdir_last_def os_mkdir_made is_dir_made split: sum.splits if_splits)

lemma mkdir_p_lookup:
  "''..'' \<notin> set p \<Longrightarrow> mkdir_p fsys p = Inr fs' \<Longrightarrow>
     map_of fs' q = (if q \<noteq> [] \<and> prefix q p then Some Dir else map_of fsys q)"
proof (induction fsys p arbitrary: fs' rule: mkdir_p.induct)
  case (1 fsys p)
  show ?case
  proof (cases "os_mkdir fsys p")
    case (Inr fs2)
    with "1.prems" have "fs' = fs2" by (simp add: mkdir_p.simps [of fsys p])
    with Inr "1.prems"(1) have "made fsys p fs'" by (simp add: os_mkdir_made)
    then show ?thesis by (rule made_lookup)
  next
    case (Inl e)
    show ?thesis
    proof (cases "e = FileNotFoundError")
      case False
      with Inl "1.prems" have "node_at fsys p = Some Dir" "fs' = fsys"
        by (auto simp: mkdir_p.simps [of fsys p] split: if_splits)
      with "1.prems"(1) have "made fsys p fs'" by (simp add: is_dir_made)
      then show ?thesis by (rule made_lookup)
    next
      case True
      with Inl "1.prems" have ne: "p \<noteq> []"
        by (auto simp: mkdir_p.simps [of fsys p] split: if_splits)
      with Inl True "1.prems" obtain fs1 where
        up: "mkdir_p fsys (butlast p) = Inr fs1" and last: "mkdir_last fs1 p = Inr fs'"
        by (auto simp: mkdir_p.simps [of fsys p] split: sum.splits)
      have "''..'' \<notin> set (butlast p)" using "1.prems"(1) by (auto dest: in_set_butlastD)
      from "1.IH" [OF Inl True ne this up]
      have a: "map_of fs1 q = (if q \<noteq> [] \<and> prefix q (butlast p) then Some Dir else map_of fsys q)" .
      from last "1.prems"(1) have "made fs1 p fs'" by (simp add: mkdir_last_made)
      then have b: "map_of fs' q = (if q \<noteq> [] \<and> prefix q p then Some Dir else map_of fs1 q)"
        by (rule made_lookup)
      have "prefix q (butlast p) \<Longrightarrow> prefix q p"
        by (metis prefix_order.trans prefixeq_butlast)
      with a b show ?thesis by auto
    qed
  qed
qed

lemma mkdir_p_below:
  "''..'' \<notin> set p \<Longrightarrow> mkdir_p fsys p = Inr fs' \<Longrightarrow> strict_prefix p q \<Longrightarrow> map_of fs' q = map_of fsys q"
  by (drule mkdir_p_lookup [where q = q]) (auto simp: strict_prefix_def)

lemma mkdir_p_there:
  "''..'' \<notin> set p \<Longrightarrow> mkdir_p fsys p = Inr fs' \<Longrightarrow> entry fs' p = Some Dir"
  by (drule mkdir_p_lookup [where q = p]) (auto simp: entry_def)

lemma apart_below:
  "\<not> prefix t dest \<Longrightarrow> \<not> prefix dest t \<Longrightarrow> prefix dest q \<Longrightarrow> \<not> prefix t q"
  using prefix_same_cases by blast

section \<open>Properties of the download loop\<close>

lemma download_loop_append:
  "download_loop ds L sync g (ps1 @ ps2) w =
     (case download_loop ds L sync g ps1 w of
        (Inl e, w') \<Rightarrow> (Inl e, w')
      | (Inr _, w') \<Rightarrow> download_loop ds L sync g ps2 w')"
  by (induction ps1 arbitrary: w) (auto split: prod.splits sum.splits)

lemma download_loop_stops:
  assumes "download_loop ds L sync g before w = (Inr (), w1)"
    and "download_package ds L sync g p w1 = (Inl e, w2)"
  shows "download_loop ds L sync g (before @ p # later) w = (Inl e, w2)"
  using assms by (simp add: download_loop_append)

lemma download_stops:
  assumes "download_loop ds L sync g before w = (Inr (), w1)"
    and "download_package ds L sync g p w1 = (Inl e, w2)"
  shows "download ds L sync g (Some (before @ p # later)) w = (Inl e, w2)"
  using assms by (simp add: download_def download_loop_stops)

lemmas run_defs =
  download_def download_package_def staged_def stage_body_def normalize_def main_group_def
  mkdir_p.simps mkdir_last_def os_mkdir_def resolve_def entry_def node_at_def
  download_generic_def get_into_def fetch_lib_def fetch_table_def
  name_of_def parts_def pjoin_def startswith_def write_file_def parent_def
  verify_files_def rglob_star_def rmtree_def path_suffix_def name_suffix_def
  sync_spec_def subtree_def no_fault_def always_fault_def Let_def

lemma pjoin_main [simp]:
  "pjoin [''deps'', ''main''] ''foo'' = [''deps'', ''main'', ''foo'']"
  "pjoin [''deps'', ''main''] ''bar'' = [''deps'', ''main'', ''bar'']"
  "pjoin [''deps'', ''main''] ''bad'' = [''deps'', ''main'', ''bad'']"
  by (simp_all add: pjoin_def parts_def startswith_def)

text \<open>
  C4, as the code has it. The loop of \<open>Group.download\<close> has no exception handler: when
  the packages before \<open>p\<close> are processed without error and the processing of \<open>p\<close>
  raises, the call raises that exception in the world \<open>p\<close> left, whatever packages come
  later in the list; none of them is processed.
\<close>

theorem first_failure_ends_download:
  assumes "download_loop ds L sync g before w = (Inr (), w1)"
    and "download_package ds L sync g p w1 = (Inl e, w2)"
  shows "download ds L sync g (Some (before @ p # later)) w = (Inl e, w2)"
  using assms by (simp add: download_def download_loop_stops)

lemma bad_package_run:
  "download_package [] (fetch_lib [(''http://h/bad.py'', ''x = !''), (''http://h/foo.py'', ''x = 1'')])
      (sync_spec no_fault)
      (main_group [(''bad'', DStr ''http://h/bad.py''), (''foo'', DStr ''http://h/foo.py'')])
      ''bad'' \<lparr>disk = [([''tmp''], Dir)], ext = []\<rparr>
    = (Inl (Py SyntaxError),
       \<lparr>disk = [([''tmp''], Dir), ([''deps''], Dir), ([''deps'', ''main''], Dir),
                ([''deps'', ''main'', ''bad''], Dir)],
        ext = [''http://h/bad.py'']\<rparr>)"
  by (simp add: run_defs)

theorem first_failure_ends_download_witness:
  "download [] (fetch_lib [(''http://h/bad.py'', ''x = !''), (''http://h/foo.py'', ''x = 1'')])
      (sync_spec no_fault)
      (main_group [(''bad'', DStr ''http://h/bad.py''), (''foo'', DStr ''http://h/foo.py'')])
      (Some ([] @ ''bad'' # [''foo''])) \<lparr>disk = [([''tmp''], Dir)], ext = []\<rparr>
    = (Inl (Py SyntaxError),
       \<lparr>disk = [([''tmp''], Dir), ([''deps''], Dir), ([''deps'', ''main''], Dir),
                ([''deps'', ''main'', ''bad''], Dir)],
        ext = [''http://h/bad.py'']\<rparr>)"
  by (rule first_failure_ends_download [where ?w1.0 = "\<lparr>disk = [([''tmp''], Dir)], ext = []\<rparr>"])
     (simp, rule bad_package_run)

text \<open>
  C4 as stated fails: with the packages \<open>bad\<close> (whose download does not parse) and
  \<open>foo\<close>, in this order, the call ends with the \<open>SyntaxError\<close> of \<open>bad\<close>; the URI of
  \<open>foo\<close> is never fetched and its folder is never created, although \<open>foo\<close> alone
  downloads without error.
\<close>

theorem later_package_not_attempted:
  "download [] (fetch_lib [(''http://h/bad.py'', ''x = !''), (''http://h/foo.py'', ''x = 1'')])
      (sync_spec no_fault)
      (main_group [(''bad'', DStr ''http://h/bad.py''), (''foo'', DStr ''http://h/foo.py'')])
      None \<lparr>disk = [([''tmp''], Dir)], ext = []\<rparr>
    = (Inl (Py SyntaxError),
       \<lparr>disk = [([''tmp''], Dir), ([''deps''], Dir), ([''deps'', ''main''], Dir),
                ([''deps'', ''main'', ''bad''], Dir)],
        ext = [''http://h/bad.py'']\<rparr>)
   \<and> download [] (fetch_lib [(''http://h/bad.py'', ''x = !''), (''http://h/foo.py'', ''x = 1'')])
      (sync_spec no_fault)
      (main_group [(''bad'', DStr ''http://h/bad.py''), (''foo'', DStr ''http://h/foo.py'')])
      (Some [''foo'']) \<lparr>disk = [([''tmp''], Dir)], ext = []\<rparr>
    = (Inr (),
       \<lparr>disk = [([''tmp''], Dir), ([''deps''], Dir), ([''deps'', ''main''], Dir),
                ([''deps'', ''main'', ''foo''], Dir),
                ([''deps'', ''main'', ''foo'', ''foo.py''], File ''x = 1'')],
        ext = [''http://h/foo.py'']\<rparr>)"
  by (simp add: run_defs)

text \<open>
  C8, as the code has it. The test for a list-valued declaration is inside the loop,
  after the \<open>mkdir\<close> of the package folder. When the packages before \<open>p\<close> are processed
  without error, the folder of \<open>p\<close> can be created and the declaration of \<open>p\<close> is a
  list, the call raises \<open>NotImplementedError\<close>; the world is the one the earlier
  packages left, with that folder added, so neither a downloader nor a library call
  ran for \<open>p\<close> or for a later package. The earlier packages have been fetched and
  synced by then.
\<close>

theorem list_declaration_raises_when_reached:
  assumes decl: "map_of (dependencies g) p = Some (DList xs)"
    and earlier: "download_loop ds L sync g before w = (Inr (), w1)"
    and mk: "mkdir_p (disk w1) (pjoin (folder g) p) = Inr fs1"
  shows "download ds L sync g (Some (before @ p # later)) w =
     (Inl (Py (NotImplementedError ''List dependencies not yet supported.'')), w1\<lparr>disk := fs1\<rparr>)"
proof -
  have "download_package ds L sync g p w1 =
      (Inl (Py (NotImplementedError ''List dependencies not yet supported.'')), w1\<lparr>disk := fs1\<rparr>)"
    using decl mk by (simp add: download_package_def normalize_def)
  with earlier show ?thesis by (rule download_stops)
qed

theorem list_declaration_raises_when_reached_witness:
  "download [accepting ''registered''] (fetch_lib [(''http://h/foo.py'', ''x = 1'')]) (sync_spec no_fault)
      (main_group [(''bar'', DList [''http://h/bar.py'']), (''foo'', DStr ''http://h/foo.py'')])
      (Some ([] @ ''bar'' # [''foo''])) \<lparr>disk = [], ext = []\<rparr>
    = (Inl (Py (NotImplementedError ''List dependencies not yet supported.'')),
       \<lparr>disk = [([''deps''], Dir), ([''deps'', ''main''], Dir), ([''deps'', ''main'', ''bar''], Dir)],
        ext = []\<rparr>)"
proof -
  have mk: "mkdir_p [] [''deps'', ''main'', ''bar'']
      = Inr [([''deps''], Dir), ([''deps'', ''main''], Dir), ([''deps'', ''main'', ''bar''], Dir)]"
    by (simp add: run_defs)
  show ?thesis
    using list_declaration_raises_when_reached
      [of "main_group [(''bar'', DList [''http://h/bar.py'']), (''foo'', DStr ''http://h/foo.py'')]"
          "''bar''" "[''http://h/bar.py'']" "[accepting ''registered'']"
          "fetch_lib [(''http://h/foo.py'', ''x = 1'')]" "sync_spec no_fault" "[]"
          "\<lparr>disk = [], ext = []\<rparr>" "\<lparr>disk = [], ext = []\<rparr>"
          "[([''deps''], Dir), ([''deps'', ''main''], Dir), ([''deps'', ''main'', ''bar''], Dir)]"
          "[''foo'']"]
    by (simp add: main_group_def mk)
qed

text \<open>
  C8 as stated fails: with the packages \<open>foo\<close> (a string) and \<open>bar\<close> (a list), in this
  order, \<open>foo\<close> is fetched and written to its folder before the error for \<open>bar\<close> is
  raised.
\<close>

theorem earlier_package_fetched_before_list_error:
  "download [] (fetch_lib [(''http://h/foo.py'', ''x = 1'')]) (sync_spec no_fault)
      (main_group [(''foo'', DStr ''http://h/foo.py''), (''bar'', DList [''http://h/bar.py''])])
      None \<lparr>disk = [([''tmp''], Dir)], ext = []\<rparr>
    = (Inl (Py (NotImplementedError ''List dependencies not yet supported.'')),
       \<lparr>disk = [([''tmp''], Dir), ([''deps''], Dir), ([''deps'', ''main''], Dir),
                ([''deps'', ''main'', ''foo''], Dir),
                ([''deps'', ''main'', ''foo'', ''foo.py''], File ''x = 1''),
                ([''deps'', ''main'', ''bar''], Dir)],
        ext = [''http://h/foo.py'']\<rparr>)"
  by (simp add: run_defs)

section \<open>Properties of a failed package download\<close>


lemma stage_body_frame:
  assumes confined: "\<forall>uri q. \<not> prefix t q \<longrightarrow>
        map_of (disk (snd (download_uri ds L t uri w2))) q = map_of (disk w2) q"
    and atomic: "\<forall>w3 e w4 q. sync t dest w3 = (Inl e, w4) \<longrightarrow> prefix dest q \<longrightarrow>
        map_of (disk w4) q = map_of (disk w3) q"
    and fails: "stage_body ds L sync d dest t w2 = (Inl e, w')"
    and q: "prefix dest q" "\<not> prefix t q"
  shows "map_of (disk w') q = map_of (disk w2) q"
proof (cases "map_of d ''remote''")
  case None
  with fails show ?thesis by (simp add: stage_body_def)
next
  case (Some uri)
  obtain r w3 where dl: "download_uri ds L t uri w2 = (r, w3)" by (cases "download_uri ds L t uri w2")
  from confined q(2) have w3: "map_of (disk w3) q = map_of (disk w2) q"
    using dl by (metis snd_conv)
  show ?thesis
  proof (cases r)
    case (Inl x)
    with fails Some dl have "w' = w3" by (simp add: stage_body_def)
    with w3 show ?thesis by simp
  next
    case (Inr x)
    show ?thesis
    proof (cases "verify_files L t (disk w3)")
      case None
      with fails Some dl Inr have "sync t dest w3 = (Inl e, w')" by (simp add: stage_body_def)
      with atomic q(1) have "map_of (disk w') q = map_of (disk w3) q" by blast
      with w3 show ?thesis by simp
    next
      case (Some x)
      with fails \<open>map_of d ''remote'' = Some uri\<close> dl Inr have "w' = w3" by (simp add: stage_body_def)
      with w3 show ?thesis by simp
    qed
  qed
qed

lemma failed_package_frame:
  assumes mk: "mkdir_p (disk w) dest = Inr fs1"
    and dest: "dest = pjoin (folder g) p"
    and tmp: "mkdtemp L (w\<lparr>disk := fs1\<rparr>) = t" "\<not> prefix t dest" "\<not> prefix dest t"
    and confined: "\<forall>uri q. \<not> prefix t q \<longrightarrow>
        map_of (disk (snd (download_uri ds L t uri (w\<lparr>disk := AList.update t Dir fs1\<rparr>)))) q
          = map_of (AList.update t Dir fs1) q"
    and atomic: "\<forall>w3 e w4 q. sync t dest w3 = (Inl e, w4) \<longrightarrow> prefix dest q \<longrightarrow>
        map_of (disk w4) q = map_of (disk w3) q"
    and fails: "download_package ds L sync g p w = (Inl e, w')"
    and q: "prefix dest q"
  shows "map_of (disk w') q = map_of fs1 q"
proof -
  from tmp(2,3) q have nt: "\<not> prefix t q" by (rule apart_below)
  then have qt: "q \<noteq> t" by auto
  show ?thesis
  proof (cases "map_of (dependencies g) p")
    case None
    with fails mk dest show ?thesis by (auto simp: download_package_def)
  next
    case (Some dep_src)
    show ?thesis
    proof (cases "normalize dep_src")
      case (Inl x)
      with fails mk dest Some show ?thesis by (auto simp: download_package_def)
    next
      case (Inr d)
      let ?w2 = "w\<lparr>disk := AList.update t Dir fs1\<rparr>"
      obtain r wb where body: "stage_body ds L sync d dest t ?w2 = (r, wb)"
        by (cases "stage_body ds L sync d dest t ?w2")
      with fails mk dest Some Inr tmp(1)
      have res: "r = Inl e" "w' = wb\<lparr>disk := rmtree t (disk wb)\<rparr>"
        by (auto simp: download_package_def staged_def)
      have c2: "\<forall>uri q. \<not> prefix t q \<longrightarrow>
          map_of (disk (snd (download_uri ds L t uri ?w2))) q = map_of (disk ?w2) q"
        using confined by simp
      from body res(1) have "stage_body ds L sync d dest t ?w2 = (Inl e, wb)" by simp
      from stage_body_frame [OF c2 atomic this q nt]
      have "map_of (disk wb) q = map_of (AList.update t Dir fs1) q" by simp
      then show ?thesis using res(2) nt qt by (simp add: map_of_rmtree update_conv')
    qed
  qed
qed





text \<open>
  C9, as the code has it. \<open>Group.download\<close> creates the package folder (with its
  parents) before it looks at the declaration, fetches or verifies. Take a package
  reached after the earlier packages of the call were processed without error, whose
  folder does not exist at that moment, can be created, and whose processing then
  fails (unknown package, unsupported declaration, missing \<open>remote\<close>, fetch, verification
  or sync error). Let every fetch write only below the staging directory, which lies
  apart from the package folder, let \<open>sync\<close> leave the folder unchanged when it fails,
  and let the folder path have no \<open>..\<close>. Then the call raises that error, and
  afterwards the folder exists and is empty.
\<close>

theorem failed_download_leaves_empty_folder:
  assumes earlier: "download_loop ds L sync g before w = (Inr (), w1)"
    and dest: "dest = pjoin (folder g) p"
    and plain: "''..'' \<notin> set dest"
    and absent: "entry (disk w1) dest = None" "\<forall>q. strict_prefix dest q \<longrightarrow> map_of (disk w1) q = None"
    and mk: "mkdir_p (disk w1) dest = Inr fs1"
    and tmp: "mkdtemp L (w1\<lparr>disk := fs1\<rparr>) = t" "\<not> prefix t dest" "\<not> prefix dest t"
    and confined: "\<forall>uri q. \<not> prefix t q \<longrightarrow>
        map_of (disk (snd (download_uri ds L t uri (w1\<lparr>disk := AList.update t Dir fs1\<rparr>)))) q
          = map_of (AList.update t Dir fs1) q"
    and atomic: "\<forall>w3 e w4 q. sync t dest w3 = (Inl e, w4) \<longrightarrow> prefix dest q \<longrightarrow>
        map_of (disk w4) q = map_of (disk w3) q"
    and fails: "download_package ds L sync g p w1 = (Inl e, w')"
  shows "download ds L sync g (Some (before @ p # later)) w = (Inl e, w')
       \<and> entry (disk w') dest = Some Dir
       \<and> (\<forall>q. strict_prefix dest q \<longrightarrow> entry (disk w') q = None)"
proof (intro conjI allI impI)
  from earlier fails show "download ds L sync g (Some (before @ p # later)) w = (Inl e, w')"
    by (rule download_stops)
next
  have "map_of (disk w') dest = map_of fs1 dest"
    by (rule failed_package_frame [OF mk dest tmp confined atomic fails]) simp
  moreover have "entry fs1 dest = Some Dir" using plain mk by (rule mkdir_p_there)
  ultimately show "entry (disk w') dest = Some Dir" by (auto simp: entry_def split: if_splits)
next
  fix q assume below: "strict_prefix dest q"
  then have pq: "prefix dest q" and "q \<noteq> []" by (auto simp: strict_prefix_def)
  have "map_of (disk w') q = map_of fs1 q"
    by (rule failed_package_frame [OF mk dest tmp confined atomic fails pq])
  also have "\<dots> = map_of (disk w1) q" using plain mk below by (rule mkdir_p_below)
  also have "\<dots> = None" using absent(2) below by blast
  finally show "entry (disk w') q = None" using \<open>q \<noteq> []\<close> by (simp add: entry_def)
qed

lemma failing_sync_run:
  "download_package [] (fetch_lib [(''http://h/foo.py'', ''x = 1'')]) (sync_spec always_fault)
      (main_group [(''foo'', DStr ''http://h/foo.py'')]) ''foo''
      \<lparr>disk = [([''tmp''], Dir)], ext = []\<rparr>
    = (Inl (Py (OtherError ''sync failed'')),
       \<lparr>disk = [([''tmp''], Dir), ([''deps''], Dir), ([''deps'', ''main''], Dir),
                ([''deps'', ''main'', ''foo''], Dir)],
        ext = [''http://h/foo.py'']\<rparr>)"
  by (simp add: run_defs)

theorem failed_download_leaves_empty_folder_witness:
  "download [] (fetch_lib [(''http://h/foo.py'', ''x = 1'')]) (sync_spec always_fault)
      (main_group [(''foo'', DStr ''http://h/foo.py'')]) (Some ([] @ ''foo'' # []))
      \<lparr>disk = [([''tmp''], Dir)], ext = []\<rparr>
    = (Inl (Py (OtherError ''sync failed'')),
       \<lparr>disk = [([''tmp''], Dir), ([''deps''], Dir), ([''deps'', ''main''], Dir),
                ([''deps'', ''main'', ''foo''], Dir)],
        ext = [''http://h/foo.py'']\<rparr>)
   \<and> entry [([''tmp''], Dir), ([''deps''], Dir), ([''deps'', ''main''], Dir),
              ([''deps'', ''main'', ''foo''], Dir)] [''deps'', ''main'', ''foo''] = Some Dir"
proof -
  let ?w = "\<lparr>disk = [([''tmp''], Dir)], ext = ([] :: string list)\<rparr>"
  let ?fs1 = "[([''tmp''], Dir), ([''deps''], Dir), ([''deps'', ''main''], Dir),
               ([''deps'', ''main'', ''foo''], Dir)]"
  let ?L = "fetch_lib [(''http://h/foo.py'', ''x = 1'')]"
  let ?g = "main_group [(''foo'', DStr ''http://h/foo.py'')]"
  let ?w' = "\<lparr>disk = ?fs1, ext = [''http://h/foo.py'']\<rparr>"
  have 1: "download_loop [] ?L (sync_spec always_fault) ?g [] ?w = (Inr (), ?w)" by simp
  have 2: "[''deps'', ''main'', ''foo''] = pjoin (folder ?g) ''foo''" by (simp add: main_group_def)
  have 3: "''..'' \<notin> set [''deps'', ''main'', ''foo'']" by simp
  have 4: "entry (disk ?w) [''deps'', ''main'', ''foo''] = None" by (simp add: entry_def)
  have 5: "\<forall>q. strict_prefix [''deps'', ''main'', ''foo''] q \<longrightarrow> map_of (disk ?w) q = None"
    by (auto simp: strict_prefix_def)
  have 6: "mkdir_p (disk ?w) [''deps'', ''main'', ''foo''] = Inr ?fs1" by (simp add: run_defs)
  have 7: "mkdtemp ?L (?w\<lparr>disk := ?fs1\<rparr>) = [''tmp'', ''stage'']" by (simp add: fetch_lib_def)
  have 8: "\<not> prefix [''tmp'', ''stage''] [''deps'', ''main'', ''foo'']"
          "\<not> prefix [''deps'', ''main'', ''foo''] [''tmp'', ''stage'']" by simp_all
  have 9: "\<forall>uri q. \<not> prefix [''tmp'', ''stage''] q \<longrightarrow>
        map_of (disk (snd (download_uri [] ?L [''tmp'', ''stage''] uri
                             (?w\<lparr>disk := AList.update [''tmp'', ''stage''] Dir ?fs1\<rparr>)))) q
          = map_of (AList.update [''tmp'', ''stage''] Dir ?fs1) q"
  proof (intro allI impI)
    fix uri q assume nt: "\<not> prefix [''tmp'', ''stage''] q"
    show "map_of (disk (snd (download_uri [] ?L [''tmp'', ''stage''] uri
                             (?w\<lparr>disk := AList.update [''tmp'', ''stage''] Dir ?fs1\<rparr>)))) q
          = map_of (AList.update [''tmp'', ''stage''] Dir ?fs1) q"
    proof (cases "uri = ''http://h/foo.py''")
      case True
      have "q \<noteq> [''tmp'', ''stage'', ''foo.py'']" using nt by auto
      with True show ?thesis by (simp add: run_defs)
    next
      case False
      then show ?thesis by (simp add: download_generic_def fetch_lib_def fetch_table_def)
    qed
  qed
  have 10: "\<forall>w3 e w4 q. sync_spec always_fault [''tmp'', ''stage''] [''deps'', ''main'', ''foo''] w3 = (Inl e, w4)
        \<longrightarrow> prefix [''deps'', ''main'', ''foo''] q \<longrightarrow> map_of (disk w4) q = map_of (disk w3) q"
    by (simp add: sync_spec_def always_fault_def)
  have 11: "download_package [] ?L (sync_spec always_fault) ?g ''foo'' ?w
      = (Inl (Py (OtherError ''sync failed'')), ?w')"
    by (rule failing_sync_run)
  from failed_download_leaves_empty_folder [OF 1 2 3 4 5 6 7 8 9 10 11, of "[]"]
  show ?thesis by simp
qed

text \<open>
  C9 as stated fails when an earlier package of the same call has put entries into the
  folder: with the packages \<open>a/b\<close> and \<open>a\<close>, in this order, the folder of \<open>a\<close> does not
  exist before the call, the processing of \<open>a\<close> fails, and afterwards the folder of \<open>a\<close>
  holds the folder of \<open>a/b\<close> with its file.
\<close>

theorem failed_package_folder_not_empty:
  "download [] (fetch_lib [(''http://h/b.py'', ''y = 2''), (''http://h/bad.py'', ''x = !'')])
      (sync_spec no_fault)
      (main_group [(''a/b'', DStr ''http://h/b.py''), (''a'', DStr ''http://h/bad.py'')])
      None \<lparr>disk = [([''tmp''], Dir)], ext = []\<rparr>
    = (Inl (Py SyntaxError),
       \<lparr>disk = [([''tmp''], Dir), ([''deps''], Dir), ([''deps'', ''main''], Dir),
                ([''deps'', ''main'', ''a''], Dir), ([''deps'', ''main'', ''a'', ''b''], Dir),
                ([''deps'', ''main'', ''a'', ''b'', ''b.py''], File ''y = 2'')],
        ext = [''http://h/b.py'', ''http://h/bad.py'']\<rparr>)
   \<and> node_at [([''tmp''], Dir)] [''deps'', ''main'', ''a''] = None"
  by (simp add: run_defs)

section \<open>Cleaning a group folder\<close>

text \<open>
  C7 at a folder that holds the directory of a package no longer declared. With the
  declared packages \<open>foo\<close> and \<open>bar\<close> and the folders \<open>foo\<close>, \<open>baz\<close> and \<open>bar\<close> on disk
  (as \<open>Group.download\<close> lays them out), \<open>Group.clean\<close> raises at the \<open>unlink\<close> of \<open>baz\<close>
  and deletes nothing.
\<close>

theorem clean_raises_on_package_folder:
  "clean (main_group [(''foo'', DStr ''http://h/foo.py''), (''bar'', DStr ''http://h/bar.py'')])
      [([''deps''], Dir), ([''deps'', ''main''], Dir),
       ([''deps'', ''main'', ''foo''], Dir), ([''deps'', ''main'', ''foo'', ''foo.py''], File ''x = 1''),
       ([''deps'', ''main'', ''baz''], Dir), ([''deps'', ''main'', ''baz'', ''baz.py''], File ''z = 3''),
       ([''deps'', ''main'', ''bar''], Dir), ([''deps'', ''main'', ''bar'', ''bar.py''], File ''y = 2'')]
    = (Inl IsADirectoryError,
       [([''deps''], Dir), ([''deps'', ''main''], Dir),
        ([''deps'', ''main'', ''foo''], Dir), ([''deps'', ''main'', ''foo'', ''foo.py''], File ''x = 1''),
        ([''deps'', ''main'', ''baz''], Dir), ([''deps'', ''main'', ''baz'', ''baz.py''], File ''z = 3''),
        ([''deps'', ''main'', ''bar''], Dir), ([''deps'', ''main'', ''bar'', ''bar.py''], File ''y = 2'')])"
  by (simp add: clean_def main_group_def node_at_def resolve_def entry_def glob_star_def unlink_def)

section \<open>Package selection of the legacy download\<close>

lemma legacy_loop_steps:
  "k \<le> length ps \<Longrightarrow> length ws = Suc k \<Longrightarrow>
     (\<forall>i<k. legacy_package up L deps ld (ps ! i) (ws ! i) = (Inr (), ws ! Suc i)) \<Longrightarrow>
     legacy_loop up L deps ld ps (ws ! 0) = legacy_loop up L deps ld (drop k ps) (ws ! k)"
proof (induction k arbitrary: ps ws)
  case 0
  then show ?case by simp
next
  case (Suc k)
  from Suc.prems(1) obtain p0 ps' where ps: "ps = p0 # ps'" by (cases ps) auto
  from Suc.prems(2) obtain w0 ws' where ws: "ws = w0 # ws'" by (cases ws) auto
  from Suc.prems(3) have first: "legacy_package up L deps ld p0 w0 = (Inr (), ws' ! 0)"
    unfolding ps ws by (metis nth_Cons_0 nth_Cons_Suc zero_less_Suc)
  have rest: "\<forall>i<k. legacy_package up L deps ld (ps' ! i) (ws' ! i) = (Inr (), ws' ! Suc i)"
  proof (intro allI impI)
    fix i assume "i < k"
    then have "Suc i < Suc k" by simp
    with Suc.prems(3) have "legacy_package up L deps ld (ps ! Suc i) (ws ! Suc i) = (Inr (), ws ! Suc (Suc i))"
      by blast
    then show "legacy_package up L deps ld (ps' ! i) (ws' ! i) = (Inr (), ws' ! Suc i)"
      unfolding ps ws by simp
  qed
  have "legacy_loop up L deps ld ps' (ws' ! 0) = legacy_loop up L deps ld (drop k ps') (ws' ! k)"
    using Suc.prems(1,2) rest unfolding ps ws by (intro Suc.IH) simp_all
  with first show ?case unfolding ps ws by simp
qed

text \<open>
  C10, as the code has it. The legacy \<open>download_dependencies\<close> treats \<open>packages=[]\<close> as
  it treats \<open>packages=None\<close>: it goes through the keys of the dependencies mapping in
  order. When the first \<open>k\<close> declared packages are processed without error one after
  the other (\<open>ws\<close> lists the worlds in between), the call has processed all of them
  when \<open>k\<close> is the number of declared packages, and it raises the error of the next
  package, without processing the ones after it, when that package fails.
  \<open>Group.download\<close> with \<open>packages=[]\<close> returns at once and leaves the world as it is.
\<close>

theorem legacy_empty_list_means_all:
  assumes "k \<le> length deps" and "length ws = Suc k" and "ws ! 0 = w"
    and "\<forall>i<k. legacy_package up L deps local_dir (fst (deps ! i)) (ws ! i) = (Inr (), ws ! Suc i)"
  shows "download_dependencies up L deps (Some []) local_dir w
           = download_dependencies up L deps None local_dir w
       \<and> (k = length deps \<longrightarrow>
            download_dependencies up L deps (Some []) local_dir w = (Inr (), ws ! k))
       \<and> (k < length deps \<and> legacy_package up L deps local_dir (fst (deps ! k)) (ws ! k) = (Inl e, w_err) \<longrightarrow>
            download_dependencies up L deps (Some []) local_dir w = (Inl e, w_err))
       \<and> download ds L sync g (Some []) w' = (Inr (), w')"
proof -
  have steps: "\<forall>i<k. legacy_package up L deps local_dir (map fst deps ! i) (ws ! i) = (Inr (), ws ! Suc i)"
    using assms(1,4) by simp
  have run: "legacy_loop up L deps local_dir (map fst deps) w
               = legacy_loop up L deps local_dir (drop k (map fst deps)) (ws ! k)"
    using legacy_loop_steps [of k "map fst deps" ws up L deps local_dir] assms(1,2,3) steps by simp
  have all: "k = length deps \<Longrightarrow> legacy_loop up L deps local_dir (map fst deps) w = (Inr (), ws ! k)"
    using run by simp
  have stop: "legacy_loop up L deps local_dir (map fst deps) w = (Inl e, w_err)"
    if "k < length deps" "legacy_package up L deps local_dir (fst (deps ! k)) (ws ! k) = (Inl e, w_err)"
  proof -
    from that(1) have "drop k (map fst deps) = fst (deps ! k) # drop (Suc k) (map fst deps)"
      by (simp add: Cons_nth_drop_Suc [symmetric])
    with run that(2) show ?thesis by simp
  qed
  show ?thesis
    using all stop by (simp add: download_dependencies_def download_def)
qed

lemmas legacy_defs =
  legacy_package_def process_url_def process_url_github_def urlparse_defs strip_www_def
  startswith_def name_of_def parts_def name_suffix_def pjoin_def parent_def
  mkdir_p.simps mkdir_last_def os_mkdir_def resolve_def entry_def node_at_def
  fetch_lib_def fetch_table_def read_text_def read_bytes_def write_text_def write_file_def

lemma legacy_foo_run:
  "legacy_package urlparse_plain
      (fetch_lib [(''https://raw.githubusercontent.com/u/p/b/foo.py'', ''x = 1''),
                  (''https://raw.githubusercontent.com/u/p/b/bar.py'', ''y = 2'')])
      [(''foo'', DStr ''https://github.com/u/p/blob/b/foo.py''),
       (''bar'', DStr ''https://raw.githubusercontent.com/u/p/b/bar.py'')]
      [''lib''] ''foo'' \<lparr>disk = [], ext = []\<rparr>
    = (Inr (), \<lparr>disk = [([''lib''], Dir), ([''lib'', ''foo.py''], File ''x = 1'')],
                ext = [''https://raw.githubusercontent.com/u/p/b/foo.py'']\<rparr>)"
  by (simp add: legacy_defs)

lemma legacy_bar_run:
  "legacy_package urlparse_plain
      (fetch_lib [(''https://raw.githubusercontent.com/u/p/b/foo.py'', ''x = 1''),
                  (''https://raw.githubusercontent.com/u/p/b/bar.py'', ''y = 2'')])
      [(''foo'', DStr ''https://github.com/u/p/blob/b/foo.py''),
       (''bar'', DStr ''https://raw.githubusercontent.com/u/p/b/bar.py'')]
      [''lib''] ''bar''
      \<lparr>disk = [([''lib''], Dir), ([''lib'', ''foo.py''], File ''x = 1'')],
       ext = [''https://raw.githubusercontent.com/u/p/b/foo.py'']\<rparr>
    = (Inr (), \<lparr>disk = [([''lib''], Dir), ([''lib'', ''foo.py''], File ''x = 1''),
                        ([''lib'', ''bar.py''], File ''y = 2'')],
                ext = [''https://raw.githubusercontent.com/u/p/b/foo.py'',
                       ''https://raw.githubusercontent.com/u/p/b/bar.py'']\<rparr>)"
  by (simp add: legacy_defs)

theorem legacy_empty_list_means_all_witness:
  "download_dependencies urlparse_plain
      (fetch_lib [(''https://raw.githubusercontent.com/u/p/b/foo.py'', ''x = 1''),
                  (''https://raw.githubusercontent.com/u/p/b/bar.py'', ''y = 2'')])
      [(''foo'', DStr ''https://github.com/u/p/blob/b/foo.py''),
       (''bar'', DStr ''https://raw.githubusercontent.com/u/p/b/bar.py'')]
      (Some []) [''lib''] \<lparr>disk = [], ext = []\<rparr>
    = (Inr (), \<lparr>disk = [([''lib''], Dir), ([''lib'', ''foo.py''], File ''x = 1''),
                        ([''lib'', ''bar.py''], File ''y = 2'')],
                ext = [''https://raw.githubusercontent.com/u/p/b/foo.py'',
                       ''https://raw.githubusercontent.com/u/p/b/bar.py'']\<rparr>)
   \<and> download []
      (fetch_lib [(''https://raw.githubusercontent.com/u/p/b/foo.py'', ''x = 1''),
                  (''https://raw.githubusercontent.com/u/p/b/bar.py'', ''y = 2'')])
      (sync_spec no_fault)
      (main_group [(''foo'', DStr ''https://github.com/u/p/blob/b/foo.py''),
                   (''bar'', DStr ''https://raw.githubusercontent.com/u/p/b/bar.py'')])
      (Some []) \<lparr>disk = [], ext = []\<rparr>
    = (Inr (), \<lparr>disk = [], ext = []\<rparr>)"
proof -
  let ?L = "fetch_lib [(''https://raw.githubusercontent.com/u/p/b/foo.py'', ''x = 1''),
                       (''https://raw.githubusercontent.com/u/p/b/bar.py'', ''y = 2'')]"
  let ?deps = "[(''foo'', DStr ''https://github.com/u/p/blob/b/foo.py''),
                (''bar'', DStr ''https://raw.githubusercontent.com/u/p/b/bar.py'')]"
  let ?w0 = "\<lparr>disk = [], ext = ([] :: string list)\<rparr>"
  let ?w1 = "\<lparr>disk = [([''lib''], Dir), ([''lib'', ''foo.py''], File ''x = 1'')],
             ext = [''https://raw.githubusercontent.com/u/p/b/foo.py'']\<rparr>"
  let ?w2 = "\<lparr>disk = [([''lib''], Dir), ([''lib'', ''foo.py''], File ''x = 1''),
                     ([''lib'', ''bar.py''], File ''y = 2'')],
             ext = [''https://raw.githubusercontent.com/u/p/b/foo.py'',
                    ''https://raw.githubusercontent.com/u/p/b/bar.py'']\<rparr>"
  have steps: "\<forall>i<2. legacy_package urlparse_plain ?L ?deps [''lib''] (fst (?deps ! i)) ([?w0, ?w1, ?w2] ! i)
                 = (Inr (), [?w0, ?w1, ?w2] ! Suc i)"
    using legacy_foo_run legacy_bar_run by (simp add: less_Suc_eq numeral_2_eq_2)
  note inst = legacy_empty_list_means_all
    [of 2 ?deps "[?w0, ?w1, ?w2]" ?w0 urlparse_plain ?L "[''lib'']" _ _ "[]" "sync_spec no_fault"
        "main_group ?deps" ?w0, OF _ _ _ steps]
  have a: "download_dependencies urlparse_plain ?L ?deps (Some []) [''lib''] ?w0 = (Inr (), ?w2)"
    using inst [THEN conjunct2, THEN conjunct1] by simp
  have b: "download [] ?L (sync_spec no_fault) (main_group ?deps) (Some []) ?w0 = (Inr (), ?w0)"
    using inst [THEN conjunct2, THEN conjunct2, THEN conjunct2] by simp
  show ?thesis by (intro conjI) (rule a, rule b)
qed

text \<open>
  C10 as stated fails when a declared package raises: with \<open>packages=[]\<close> and the
  declared packages \<open>bad\<close> (whose download does not parse) and \<open>foo\<close>, the call ends with
  the \<open>SyntaxError\<close> of \<open>bad\<close> and \<open>foo\<close> is not downloaded.
\<close>

theorem legacy_stops_at_failing_package:
  "download_dependencies urlparse_plain
      (fetch_lib [(''https://raw.githubusercontent.com/u/p/b/bad.py'', ''x = !''),
                  (''https://raw.githubusercontent.com/u/p/b/foo.py'', ''x = 1'')])
      [(''bad'', DStr ''https://github.com/u/p/blob/b/bad.py''),
       (''foo'', DStr ''https://github.com/u/p/blob/b/foo.py'')]
      (Some []) [''lib''] \<lparr>disk = [], ext = []\<rparr>
    = (Inl (Py SyntaxError),
       \<lparr>disk = [([''lib''], Dir)], ext = [''https://raw.githubusercontent.com/u/p/b/bad.py'']\<rparr>)"
  by (simp add: download_dependencies_def legacy_defs)

end
